theory Spec2Isabelle
  imports Main "HOL-Library.Word"
begin

unbundle bit_operations_syntax

section \<open>COLO proxy (net/colo-proxy.c): data model\<close>

type_synonym byte = "8 word"

text \<open>\<open>ssize_t\<close> of a 64-bit host: 64 bits, read as two's complement by \<open>sint\<close>.\<close>

type_synonym ssize_t = "64 word"

text \<open>The anonymous enum of proxy states.\<close>

datatype proxy_status = COLO_PROXY_NONE | COLO_PROXY_RUNNING | COLO_PROXY_DONE

text \<open>
  Modelled from the spec: the \<open>COLOMode\<close> enumeration is declared outside
  net/colo-proxy.c; the spec fixes exactly two modes, Primary and Secondary (the file names
  them \<open>PRIMARY_MODE\<close> and \<open>SECONDARY_MODE\<close>). The source only ever tests
  \<open>colo_mode == COLO_MODE_PRIMARY\<close> and treats everything else in the \<open>else\<close> branch.
\<close>

datatype COLOMode = COLO_MODE_PRIMARY | COLO_MODE_SECONDARY

text \<open>
  Modelled from the spec: \<open>NetFilterDirection\<close> is declared in net/filter.h's generated
  types; the source compares \<open>nf->direction\<close> with \<open>NET_FILTER_DIRECTION_ALL\<close> only.
\<close>

datatype NetFilterDirection =
  NET_FILTER_DIRECTION_ALL | NET_FILTER_DIRECTION_RX | NET_FILTER_DIRECTION_TX

text \<open>\<open>struct Packet\<close>: the owned buffer and its size (the header pointers point into it).\<close>

record Packet =
  pkt_data :: "byte list"
  pkt_size :: int

text \<open>\<open>struct ConnectionKey\<close>, packed; \<open>connection_key_equal\<close> is \<open>memcmp\<close> over it.\<close>

record ConnectionKey =
  src :: "32 word"
  dst :: "32 word"
  src_port :: "16 word"
  dst_port :: "16 word"
  ip_proto :: "8 word"

definition connection_key_equal :: "ConnectionKey \<Rightarrow> ConnectionKey \<Rightarrow> bool" where
  "connection_key_equal k1 k2 \<longleftrightarrow>
     src k1 = src k2 \<and> dst k1 = dst k2 \<and> src_port k1 = src_port k2 \<and>
     dst_port k1 = dst_port k2 \<and> ip_proto k1 = ip_proto k2"

text \<open>\<open>struct Connection\<close>.\<close>

record Connection =
  primary_list :: "Packet list"
  secondary_list :: "Packet list"
  processing :: bool
  conn_ip_proto :: int

text \<open>The compare thread handle \<open>s->thread\<close>: never created, running, or joined.\<close>

datatype thread_state = Thread_none | Thread_running string | Thread_joined

text \<open>
  The engine: the fields of \<open>COLOProxyState\<close> (with the \<open>NetFilterState\<close> fields the file
  reads), the file-level globals \<open>colo_conn_hash\<close>, \<open>colo_do_checkpoint\<close> and
  \<open>hashtable_max_size\<close>, and the part of the host the file acts on: the fd handlers it
  installs, the descriptors it closes, the byte stream of its socket in both directions, the
  buffers it allocates with \<open>g_malloc0\<close> and the messages it reports.
  \<open>need_compare_ev\<close> is \<open>None\<close> while the event does not exist.
\<close>

record engine =
  typename :: string
  netdev_id :: string
  direction :: NetFilterDirection
  incoming_queue :: "byte list list"
  colo_mode :: COLOMode
  addr :: "string option"
  sockfd :: int
  conn_list :: "Connection list"
  status :: proxy_status
  hashtable_size :: int
  need_compare_ev :: "bool option"
  thread :: thread_state
  colo_conn_hash :: "(ConnectionKey \<times> Connection) list"
  colo_do_checkpoint :: bool
  hashtable_max_size :: int
  fd_handlers :: "int set"
  closed_fds :: "int list"
  sock_rx :: "byte list"
  sock_tx :: "byte list"
  allocs :: "nat list"
  error_reports :: "string list"

definition TYPE_FILTER_COLO_PROXY :: string where
  "TYPE_FILTER_COLO_PROXY = ''colo-proxy''"

section \<open>Socket primitives and the wire encoding of a length\<close>

text \<open>
  The length prefix is the object representation of an \<open>ssize_t\<close>: \<open>sizeof(size)\<close> = 8
  bytes in the host's byte order, least significant byte first on the hosts QEMU's COLO runs
  on.
\<close>

fun le_bytes :: "nat \<Rightarrow> ssize_t \<Rightarrow> byte list" where
  "le_bytes 0 w = []"
| "le_bytes (Suc n) w = ucast w # le_bytes n (drop_bit 8 w)"

fun le_word :: "byte list \<Rightarrow> ssize_t" where
  "le_word [] = 0"
| "le_word (b # bs) = ucast b OR push_bit 8 (le_word bs)"

definition sizeof_ssize_t :: nat where
  "sizeof_ssize_t = 8"

text \<open>\<open>iov_size\<close>: the total number of bytes an iovec array describes.\<close>

definition iov_size :: "byte list list \<Rightarrow> nat" where
  "iov_size iov = sum_list (map length iov)"

text \<open>
  Modelled from the spec: \<open>iov_send\<close> and \<open>iov_recv\<close> are socket primitives of the host
  (util/iov.c), external collaborators of this file. The transport is a single
  connection-oriented duplex channel: a connected descriptor is an ordered byte stream, a
  send appends all its bytes to it, a receive takes the bytes that are there, up to the
  number asked for, and a call on an invalid descriptor returns -1 and transfers nothing.
\<close>

definition iov_send :: "engine \<Rightarrow> byte list \<Rightarrow> ssize_t \<times> engine" where
  "iov_send e bs =
     (if sockfd e < 0 then (- 1, e)
      else (of_nat (length bs), e\<lparr>sock_tx := sock_tx e @ bs\<rparr>))"

text \<open>
  Modelled from the spec: \<open>iov_recv\<close> (util/iov.c), the receiving side of the same
  channel: the bytes received and the engine with them taken off its stream.
\<close>

definition iov_recv :: "engine \<Rightarrow> nat \<Rightarrow> byte list \<times> engine" where
  "iov_recv e n =
     (if sockfd e < 0 then ([], e)
      else (take n (sock_rx e), e\<lparr>sock_rx := drop n (sock_rx e)\<rparr>))"

text \<open>A receive overwrites the front of the destination buffer and leaves the rest.\<close>

definition fill :: "byte list \<Rightarrow> byte list \<Rightarrow> byte list" where
  "fill buf got = got @ drop (length got) buf"

section \<open>The operations of net/colo-proxy.c\<close>

definition colo_proxy_query_checkpoint :: "engine \<Rightarrow> bool \<times> engine" where
  "colo_proxy_query_checkpoint e = (colo_do_checkpoint e, e)"

definition colo_proxy_notify_checkpoint :: "engine \<Rightarrow> engine" where
  "colo_proxy_notify_checkpoint e = e\<lparr>colo_do_checkpoint := True\<rparr>"

text \<open>\<open>colo_proxy_sock_send\<close>: nothing for an empty payload, else the size, then the payload.\<close>

definition colo_proxy_sock_send :: "engine \<Rightarrow> byte list list \<Rightarrow> ssize_t \<times> engine" where
  "colo_proxy_sock_send e iov =
     (let size = (of_nat (iov_size iov) :: ssize_t) in
      if size = 0 then (0, e)
      else
        (case iov_send e (le_bytes sizeof_ssize_t size) of
           (ret, e1) \<Rightarrow>
             if sint ret < 0 then (ret, e1)
             else iov_send e1 (take (unat size) (concat iov))))"

text \<open>
  \<open>colo_proxy_sock_receive\<close>. \<open>NET_BUFSIZE\<close> (net/net.h) and
  \<open>colo_proxy_enqueue_secondary_packet\<close> are not defined in this file and are parameters
  here. The return values of both \<open>iov_recv\<close> calls are ignored, as in the source; \<open>len\<close>
  starts as 0 and the payload buffer starts zeroed.
\<close>

definition colo_proxy_sock_receive ::
  "int \<Rightarrow> (byte list \<Rightarrow> ssize_t \<Rightarrow> engine \<Rightarrow> engine) \<Rightarrow> engine \<Rightarrow> engine" where
  "colo_proxy_sock_receive NET_BUFSIZE enqueue_secondary_packet e =
     (case iov_recv e sizeof_ssize_t of
        (got, e1) \<Rightarrow>
          (let len = le_word (fill (le_bytes sizeof_ssize_t 0) got) in
           if 0 < sint len \<and> sint len < NET_BUFSIZE then
             (let n = nat (sint len);
                  e2 = e1\<lparr>allocs := allocs e1 @ [n]\<rparr>
              in case iov_recv e2 n of
                   (got2, e3) \<Rightarrow>
                     (let buf = fill (replicate n 0) got2 in
                      if colo_mode e3 = COLO_MODE_PRIMARY
                      then enqueue_secondary_packet buf len e3
                      else e3\<lparr>incoming_queue := incoming_queue e3 @ [buf]\<rparr>))
           else e1))"

text \<open>
  \<open>colo_proxy_receive_iov\<close>: both mode branches are empty (comments only); the sender, the
  flags and \<open>sent_cb\<close> are never used.
\<close>

definition colo_proxy_receive_iov :: "engine \<Rightarrow> byte list list \<Rightarrow> ssize_t \<times> engine" where
  "colo_proxy_receive_iov e iov =
     (if status e \<noteq> COLO_PROXY_RUNNING then (0, e)
      else if colo_mode e = COLO_MODE_PRIMARY then (of_nat (iov_size iov), e)
      else (of_nat (iov_size iov), e))"

definition colo_proxy_cleanup :: "engine \<Rightarrow> engine" where
  "colo_proxy_cleanup e =
     e\<lparr>closed_fds := closed_fds e @ [sockfd e], sockfd := - 1, need_compare_ev := None\<rparr>"

section \<open>Lifecycle: setup, start, stop\<close>

datatype Error =
  Err_addr_not_set | Err_direction_not_all | Err_connect_failed | Err_wait_incoming_failed

text \<open>\<open>colo_proxy_setup\<close>: two guarded error returns, then the initialisation.\<close>

definition colo_proxy_setup :: "engine \<Rightarrow> Error option \<times> engine" where
  "colo_proxy_setup e =
     (if addr e = None then (Some Err_addr_not_set, e)
      else if direction e \<noteq> NET_FILTER_DIRECTION_ALL then (Some Err_direction_not_all, e)
      else (None, e\<lparr>sockfd := - 1, hashtable_size := 0, colo_do_checkpoint := False,
                     need_compare_ev := Some False, incoming_queue := [],
                     colo_conn_hash := [], conn_list := []\<rparr>))"

text \<open>
  What the host answers to the calls of the start path: the descriptor (or negative value)
  returned by \<open>inet_connect\<close> and by \<open>inet_listen\<close>, and for the n-th call of
  \<open>qemu_accept\<close> its result together with \<open>socket_error()\<close>; and the text
  \<open>strerror\<close> gives for an error number.
\<close>

record env =
  inet_connect_res :: int
  inet_listen_res :: int
  qemu_accept_res :: "nat \<Rightarrow> int \<times> int"
  strerror_res :: "int \<Rightarrow> string"

definition EINTR :: int where
  "EINTR = 4"

text \<open>The \<open>do ... while (accept_sock < 0 && err == EINTR)\<close> loop; it need not end.\<close>

partial_function (option) accept_loop :: "(nat \<Rightarrow> int \<times> int) \<Rightarrow> nat \<Rightarrow> (int \<times> int) option" where
  "accept_loop acc i =
     (case acc i of
        (accept_sock, err) \<Rightarrow>
          if accept_sock < 0 \<and> err = EINTR then accept_loop acc (Suc i)
          else Some (accept_sock, err))"

definition colo_wait_incoming :: "env \<Rightarrow> engine \<Rightarrow> (int \<times> engine) option" where
  "colo_wait_incoming E e =
     (let fd = inet_listen_res E in
      if fd < 0
      then Some (- 1, e\<lparr>error_reports := error_reports e @ [''colo proxy listen failed'']\<rparr>)
      else
        (case accept_loop (qemu_accept_res E) 0 of
           None \<Rightarrow> None
         | Some (accept_sock, err) \<Rightarrow>
             (let e1 = e\<lparr>closed_fds := closed_fds e @ [fd]\<rparr> in
              if accept_sock < 0
              then Some (- 1, e1\<lparr>error_reports :=
                                    error_reports e1 @
                                      [''colo proxy accept failed('' @ strerror_res E err @
                                       '')'']\<rparr>)
              else Some (0, e1\<lparr>sockfd := accept_sock,
                               fd_handlers := insert accept_sock (fd_handlers e1)\<rparr>))))"

definition colo_proxy_connect :: "env \<Rightarrow> engine \<Rightarrow> int \<times> engine" where
  "colo_proxy_connect E e =
     (let sock = inet_connect_res E in
      if sock < 0
      then (- 1, e\<lparr>error_reports := error_reports e @ [''colo proxy inet_connect failed'']\<rparr>)
      else (0, e\<lparr>sockfd := sock, fd_handlers := insert sock (fd_handlers e)\<rparr>))"

text \<open>
  A failed \<open>assert\<close> aborts the process; so does, in QEMU's fortified build, a
  \<open>sprintf\<close> that writes past the end of its buffer.
\<close>

datatype abort = Assertion_failed | Buffer_overflow

text \<open>
  \<open>sprintf(thread_name, "proxy compare %s", nf->netdev_id)\<close> into
  \<open>char thread_name[1024]\<close>: the text and its terminating NUL must fit into 1024 bytes.
\<close>

definition sprintf_thread_name :: "string \<Rightarrow> abort + string" where
  "sprintf_thread_name netdev =
     (if length (''proxy compare '' @ netdev) + 1 \<le> 1024
      then Inr (''proxy compare '' @ netdev)
      else Inl Buffer_overflow)"

text \<open>
  \<open>colo_proxy_start_one\<close>: the result is \<open>None\<close> when the accept loop never ends, else the
  abort or the error left in \<open>errp\<close> with the new state. \<open>qemu_thread_create\<close> starts
  \<open>colo_proxy_compare_thread\<close> under the name built by \<open>sprintf\<close>, after the status
  has been set.
\<close>

definition colo_proxy_start_one ::
  "env \<Rightarrow> COLOMode \<Rightarrow> engine \<Rightarrow> (abort + Error option \<times> engine) option" where
  "colo_proxy_start_one E mode e =
     (if typename e \<noteq> TYPE_FILTER_COLO_PROXY then Some (Inr (None, e))
      else if colo_mode e \<noteq> mode then Some (Inl Assertion_failed)
      else if colo_mode e = COLO_MODE_PRIMARY then
        (case colo_proxy_connect E e of
           (ret, e1) \<Rightarrow>
             if ret \<noteq> 0 then Some (Inr (Some Err_connect_failed, e1))
             else
               (let e2 = e1\<lparr>status := COLO_PROXY_RUNNING\<rparr> in
                case sprintf_thread_name (netdev_id e2) of
                  Inl a \<Rightarrow> Some (Inl a)
                | Inr thread_name \<Rightarrow>
                    Some (Inr (None, e2\<lparr>thread := Thread_running thread_name\<rparr>))))
      else
        (case colo_wait_incoming E e of
           None \<Rightarrow> None
         | Some (ret, e1) \<Rightarrow>
             if ret \<noteq> 0 then Some (Inr (Some Err_wait_incoming_failed, e1))
             else Some (Inr (None, e1\<lparr>status := COLO_PROXY_RUNNING\<rparr>))))"

text \<open>
  Modelled from the spec: \<open>qemu_foreach_netfilter\<close> (net/filter.c) is not in this file;
  it applies the callback to the net filters of the machine, and the engine here is the one
  colo-proxy filter of a session. \<open>colo_proxy_start\<close> returns -1 when the callback left an
  error and 0 otherwise.
\<close>

definition colo_proxy_start :: "env \<Rightarrow> COLOMode \<Rightarrow> engine \<Rightarrow> (abort + int \<times> engine) option" where
  "colo_proxy_start E mode e =
     (case colo_proxy_start_one E mode e of
        None \<Rightarrow> None
      | Some (Inl a) \<Rightarrow> Some (Inl a)
      | Some (Inr (err, e1)) \<Rightarrow> Some (Inr (if err \<noteq> None then - 1 else 0, e1)))"

text \<open>
  Modelled from the spec: \<open>qemu_event_set\<close> (the host's thread primitives) raises the wake
  condition the comparison task blocks on.
\<close>

definition qemu_event_set :: "engine \<Rightarrow> engine" where
  "qemu_event_set e = e\<lparr>need_compare_ev := Some True\<rparr>"

text \<open>
  Modelled from the spec: \<open>qemu_thread_join\<close> (the host's thread primitives): stop waits
  for the comparison task to exit before returning.
\<close>

definition qemu_thread_join :: "engine \<Rightarrow> engine" where
  "qemu_thread_join e = e\<lparr>thread := Thread_joined\<rparr>"

text \<open>
  \<open>colo_proxy_stop_one\<close>. \<open>colo_proxy_primary_checkpoint\<close> and
  \<open>colo_proxy_secondary_checkpoint\<close> are not defined in this file and are parameters.
\<close>

definition colo_proxy_stop_one ::
  "(engine \<Rightarrow> engine) \<Rightarrow> (engine \<Rightarrow> engine) \<Rightarrow> COLOMode \<Rightarrow> engine \<Rightarrow> abort + engine" where
  "colo_proxy_stop_one primary_checkpoint secondary_checkpoint mode e =
     (if typename e \<noteq> TYPE_FILTER_COLO_PROXY then Inr e
      else if colo_mode e \<noteq> mode then Inl Assertion_failed
      else
        (let e1 = e\<lparr>status := COLO_PROXY_DONE\<rparr>;
             e2 = (if 0 \<le> sockfd e1
                   then e1\<lparr>fd_handlers := fd_handlers e1 - {sockfd e1},
                           closed_fds := closed_fds e1 @ [sockfd e1]\<rparr>
                   else e1)
         in if colo_mode e2 = COLO_MODE_PRIMARY
            then Inr (qemu_thread_join (qemu_event_set (primary_checkpoint e2)))
            else Inr (secondary_checkpoint e2)))"

definition colo_proxy_stop ::
  "(engine \<Rightarrow> engine) \<Rightarrow> (engine \<Rightarrow> engine) \<Rightarrow> COLOMode \<Rightarrow> engine \<Rightarrow> abort + engine" where
  "colo_proxy_stop primary_checkpoint secondary_checkpoint mode e =
     colo_proxy_stop_one primary_checkpoint secondary_checkpoint mode e"

text \<open>
  A filter object as the object system hands it to \<open>colo_proxy_setup\<close>: allocated zeroed,
  with the properties \<open>mode\<close> and \<open>addr\<close> and the filter's direction and netdev set from
  the command line. The globals are zero-initialised statics.
\<close>

definition engine_init :: "COLOMode \<Rightarrow> string option \<Rightarrow> NetFilterDirection \<Rightarrow> engine" where
  "engine_init mode a d =
     \<lparr>typename = TYPE_FILTER_COLO_PROXY, netdev_id = ''hn0'', direction = d,
      incoming_queue = [], colo_mode = mode, addr = a, sockfd = 0, conn_list = [],
      status = COLO_PROXY_NONE, hashtable_size = 0, need_compare_ev = None,
      thread = Thread_none, colo_conn_hash = [], colo_do_checkpoint = False,
      hashtable_max_size = 0, fd_handlers = {}, closed_fds = [], sock_rx = [],
      sock_tx = [], allocs = [], error_reports = []\<rparr>"

section \<open>Operations as a state machine\<close>

text \<open>
  What the file leaves to other parts of the program, gathered: \<open>NET_BUFSIZE\<close>, the three
  functions it calls and does not define, and the answers of the host.
\<close>

record ctx =
  ctx_bufsize :: int
  ctx_enqueue :: "byte list \<Rightarrow> ssize_t \<Rightarrow> engine \<Rightarrow> engine"
  ctx_primary_checkpoint :: "engine \<Rightarrow> engine"
  ctx_secondary_checkpoint :: "engine \<Rightarrow> engine"
  ctx_host :: env

datatype operation =
  Op_setup
| Op_query_checkpoint
| Op_notify_checkpoint
| Op_sock_send "byte list list"
| Op_sock_receive
| Op_receive_iov "byte list list"
| Op_cleanup
| Op_start COLOMode
| Op_stop COLOMode

text \<open>One operation; \<open>None\<close> when it does not return (abort, or accept loop without end).\<close>

fun exec :: "ctx \<Rightarrow> operation \<Rightarrow> engine \<Rightarrow> engine option" where
  "exec X Op_setup e = Some (snd (colo_proxy_setup e))"
| "exec X Op_query_checkpoint e = Some (snd (colo_proxy_query_checkpoint e))"
| "exec X Op_notify_checkpoint e = Some (colo_proxy_notify_checkpoint e)"
| "exec X (Op_sock_send iov) e = Some (snd (colo_proxy_sock_send e iov))"
| "exec X Op_sock_receive e =
     Some (colo_proxy_sock_receive (ctx_bufsize X) (ctx_enqueue X) e)"
| "exec X (Op_receive_iov iov) e = Some (snd (colo_proxy_receive_iov e iov))"
| "exec X Op_cleanup e = Some (colo_proxy_cleanup e)"
| "exec X (Op_start mode) e =
     (case colo_proxy_start (ctx_host X) mode e of
        Some (Inr (ret, e1)) \<Rightarrow> Some e1
      | _ \<Rightarrow> None)"
| "exec X (Op_stop mode) e =
     (case colo_proxy_stop (ctx_primary_checkpoint X) (ctx_secondary_checkpoint X) mode e of
        Inr e1 \<Rightarrow> Some e1
      | Inl a \<Rightarrow> None)"

fun run :: "ctx \<Rightarrow> operation list \<Rightarrow> engine \<Rightarrow> engine option" where
  "run X [] e = Some e"
| "run X (op # ops) e = (case exec X op e of None \<Rightarrow> None | Some e1 \<Rightarrow> run X ops e1)"

text \<open>What is asked of a function the file calls and does not define.\<close>

definition keeps_checkpoint_flag :: "(engine \<Rightarrow> engine) \<Rightarrow> bool" where
  "keeps_checkpoint_flag f \<longleftrightarrow> (\<forall>x. colo_do_checkpoint x \<longrightarrow> colo_do_checkpoint (f x))"

definition keeps_transport_state :: "(engine \<Rightarrow> engine) \<Rightarrow> bool" where
  "keeps_transport_state f \<longleftrightarrow>
     (\<forall>x. status (f x) = status x \<and> sockfd (f x) = sockfd x \<and>
          fd_handlers (f x) = fd_handlers x \<and> closed_fds (f x) = closed_fds x)"

definition ctx_keeps_flag :: "ctx \<Rightarrow> bool" where
  "ctx_keeps_flag X \<longleftrightarrow>
     (\<forall>buf len. keeps_checkpoint_flag (ctx_enqueue X buf len)) \<and>
     keeps_checkpoint_flag (ctx_primary_checkpoint X) \<and>
     keeps_checkpoint_flag (ctx_secondary_checkpoint X)"

section \<open>Registry, secondary-packet queueing and comparison\<close>

type_synonym registry = "(ConnectionKey \<times> Connection) list"

text \<open>
  Modelled from the spec: the registry operations (\<open>lookup_or_create\<close>, \<open>size\<close>, eviction)
  are not in this file, which only declares \<open>colo_conn_hash\<close> and \<open>hashtable_max_size\<close>
  and creates the empty table. Creation allocates a Connection with empty queues and
  \<open>processing = false\<close>; when the size equals the bound and a new key arrives, the
  least-recently-active connection is evicted before insertion, its two queues drained and
  their packets released. The registry keeps the most recently active flow first.
\<close>

definition new_connection :: "ConnectionKey \<Rightarrow> Connection" where
  "new_connection k =
     \<lparr>primary_list = [], secondary_list = [], processing = False,
      conn_ip_proto = uint (ip_proto k)\<rparr>"

text \<open>
  Modelled from the spec: the lookup half of \<open>lookup_or_create\<close>, not in this file:
  equality of keys is exact, by \<open>connection_key_equal\<close>.
\<close>

definition registry_lookup :: "ConnectionKey \<Rightarrow> registry \<Rightarrow> Connection option" where
  "registry_lookup k reg = map_option snd (find (\<lambda>kc. connection_key_equal (fst kc) k) reg)"

text \<open>Modelled from the spec: \<open>remove(key)\<close> of the registry contract, not in this file.\<close>

definition registry_remove :: "ConnectionKey \<Rightarrow> registry \<Rightarrow> registry" where
  "registry_remove k reg = filter (\<lambda>kc. \<not> connection_key_equal (fst kc) k) reg"

text \<open>
  Modelled from the spec: the eviction policy, not in this file: the least recently active
  flow goes, and both its queues are drained, their packets released.
\<close>

definition evict :: "registry \<Rightarrow> Packet list \<times> registry" where
  "evict reg =
     (if reg = [] then ([], [])
      else (primary_list (snd (last reg)) @ secondary_list (snd (last reg)), butlast reg))"

text \<open>
  Modelled from the spec: \<open>lookup_or_create(key)\<close> of the registry contract, not in this
  file: the Connection, the packets released by an eviction, and the new registry.
\<close>

definition lookup_or_create ::
  "int \<Rightarrow> ConnectionKey \<Rightarrow> registry \<Rightarrow> Connection \<times> Packet list \<times> registry" where
  "lookup_or_create bound k reg =
     (case registry_lookup k reg of
        Some c \<Rightarrow> (c, [], (k, c) # registry_remove k reg)
      | None \<Rightarrow>
          (case (if int (length reg) = bound then evict reg else ([], reg)) of
             (released, reg1) \<Rightarrow> (new_connection k, released, (k, new_connection k) # reg1)))"


text \<open>
  Modelled from the spec: \<open>colo_proxy_enqueue_secondary_packet\<close> is called by
  \<open>colo_proxy_sock_receive\<close> and not defined in this file. On the primary side an incoming
  frame is delivered to the registry as a secondary-origin packet and queued on that flow's
  \<open>secondary_list\<close>, then the comparison task is woken; a buffer that cannot be classified
  is not placed into any flow. The classifier (the packet parser, also not in this file) is
  a parameter.
\<close>

definition colo_proxy_enqueue_secondary_packet ::
  "(byte list \<Rightarrow> ConnectionKey option) \<Rightarrow> byte list \<Rightarrow> ssize_t \<Rightarrow> engine \<Rightarrow> engine" where
  "colo_proxy_enqueue_secondary_packet classify buf len e =
     (case classify buf of
        None \<Rightarrow> e
      | Some k \<Rightarrow>
          (case lookup_or_create (hashtable_max_size e) k (colo_conn_hash e) of
             (c, released, reg) \<Rightarrow>
               (let pkt = \<lparr>pkt_data = buf, pkt_size = sint len\<rparr>;
                    c1 = c\<lparr>secondary_list := secondary_list c @ [pkt], processing := True\<rparr>;
                    reg1 = (k, c1) # tl reg
                in qemu_event_set
                     (e\<lparr>colo_conn_hash := reg1, hashtable_size := int (length reg1)\<rparr>))))"

text \<open>
  Modelled from the spec: \<open>colo_proxy_compare_thread\<close> is started by
  \<open>colo_proxy_start_one\<close> and not defined in this file. One scan of the comparison task:
  for each flow with \<open>processing\<close> set it compares the heads of the two queues while both
  are non-empty, dequeuing both when they are judged equivalent and stopping at the first
  pair that disagrees; it requests a checkpoint on a disagreement or when what is left of a
  queue is deeper than the per-flow limit, and clears \<open>processing\<close> when both queues are
  empty. The comparator and the depth limit are parameters.
\<close>

fun compare_heads ::
  "(Packet \<Rightarrow> Packet \<Rightarrow> bool) \<Rightarrow> Packet list \<Rightarrow> Packet list \<Rightarrow> Packet list \<times> Packet list \<times> bool" where
  "compare_heads same (p # ps) (q # qs) =
     (if same p q then compare_heads same ps qs else (p # ps, q # qs, True))"
| "compare_heads same ps qs = (ps, qs, False)"

text \<open>
  Modelled from the spec: the comparison of one flow, part of \<open>colo_proxy_compare_thread\<close>
  (not in this file): the flow after the comparison and whether a checkpoint is requested.
\<close>

definition compare_connection ::
  "(Packet \<Rightarrow> Packet \<Rightarrow> bool) \<Rightarrow> nat \<Rightarrow> Connection \<Rightarrow> Connection \<times> bool" where
  "compare_connection same depth c =
     (if \<not> processing c then (c, False)
      else
        (case compare_heads same (primary_list c) (secondary_list c) of
           (ps, qs, mismatch) \<Rightarrow>
             (c\<lparr>primary_list := ps, secondary_list := qs,
                processing := (ps \<noteq> [] \<or> qs \<noteq> [])\<rparr>,
              mismatch \<or> depth < length ps \<or> depth < length qs)))"

text \<open>
  Modelled from the spec: one scan of \<open>colo_proxy_compare_thread\<close> (not in this file) over
  the flows of the registry; the request is raised with \<open>colo_proxy_notify_checkpoint\<close>.
\<close>

definition colo_proxy_compare_scan ::
  "(Packet \<Rightarrow> Packet \<Rightarrow> bool) \<Rightarrow> nat \<Rightarrow> engine \<Rightarrow> engine" where
  "colo_proxy_compare_scan same depth e =
     (let e1 = e\<lparr>colo_conn_hash :=
                   map (\<lambda>kc. (fst kc, fst (compare_connection same depth (snd kc))))
                     (colo_conn_hash e)\<rparr>
      in if list_ex (\<lambda>kc. snd (compare_connection same depth (snd kc))) (colo_conn_hash e)
         then colo_proxy_notify_checkpoint e1
         else e1)"

text \<open>
  Modelled from the spec: the flow a key stands for in the registry (whose operations are not
  in this file): the live Connection, or a fresh one when there is none.
\<close>

definition flow_of :: "ConnectionKey \<Rightarrow> registry \<Rightarrow> Connection" where
  "flow_of k reg = (case registry_lookup k reg of Some c \<Rightarrow> c | None \<Rightarrow> new_connection k)"

section \<open>Sample states\<close>

text \<open>A filter after setup and a successful start, its socket connected on descriptor 7.\<close>

definition running_engine :: "COLOMode \<Rightarrow> engine" where
  "running_engine mode =
     (engine_init mode (Some '':12345'') NET_FILTER_DIRECTION_ALL)
       \<lparr>sockfd := 7, status := COLO_PROXY_RUNNING, need_compare_ev := Some False,
        fd_handlers := {7}\<rparr>"

text \<open>
  A host whose first two \<open>qemu_accept\<close> calls are interrupted (\<open>EINTR\<close>) and whose
  later ones return the given descriptor and error number.
\<close>

definition sample_env :: "int \<Rightarrow> int \<Rightarrow> int \<Rightarrow> int \<Rightarrow> env" where
  "sample_env c l a err =
     \<lparr>inet_connect_res = c, inet_listen_res = l,
      qemu_accept_res = (\<lambda>i. if i < 2 then (- 1, EINTR) else (a, err)),
      strerror_res = (\<lambda>n. if n = 24 then ''Too many open files'' else ''Unknown error'')\<rparr>"

text \<open>A context whose undefined functions do nothing, with \<open>NET_BUFSIZE\<close> = 4096 + 65536.\<close>

definition sample_ctx :: ctx where
  "sample_ctx =
     \<lparr>ctx_bufsize = 69632, ctx_enqueue = (\<lambda>buf len x. x),
      ctx_primary_checkpoint = (\<lambda>x. x), ctx_secondary_checkpoint = (\<lambda>x. x),
      ctx_host = sample_env 5 6 9 0\<rparr>"

text \<open>Sample flows: TCP from 192.168.0.100 to 192.168.0.101:80, told apart by source port.\<close>

definition sample_key :: "16 word \<Rightarrow> ConnectionKey" where
  "sample_key p = \<lparr>src = 3232235620, dst = 3232235621, src_port = p, dst_port = 80, ip_proto = 6\<rparr>"

definition sample_packet :: "byte list \<Rightarrow> Packet" where
  "sample_packet bs = \<lparr>pkt_data = bs, pkt_size = int (length bs)\<rparr>"

definition sample_connection :: "Packet list \<Rightarrow> Packet list \<Rightarrow> Connection" where
  "sample_connection ps qs =
     \<lparr>primary_list = ps, secondary_list = qs, processing = True, conn_ip_proto = 6\<rparr>"

text \<open>
  A well-formed packet: an Ethernet frame (14 bytes, type IPv4) carrying an IPv4 header (20
  bytes, protocol TCP, 192.168.0.100 to 192.168.0.101) and a TCP header (20 bytes, port 4660
  to port 80, SYN), with both checksums right.
\<close>

definition sample_tcp_frame :: "byte list" where
  "sample_tcp_frame =
     [82, 84, 0, 18, 52, 87,  82, 84, 0, 18, 52, 86,  8, 0,
      69, 0, 0, 40,  0, 1, 64, 0,  64, 6, 184, 181,  192, 168, 0, 100,  192, 168, 0, 101,
      18, 52, 0, 80,  0, 0, 0, 1,  0, 0, 0, 0,  80, 2, 114, 16,  169, 51, 0, 0]"

text \<open>A comparator for the samples: two packets are equivalent when their bytes are.\<close>

definition same_data :: "Packet \<Rightarrow> Packet \<Rightarrow> bool" where
  "same_data p q \<longleftrightarrow> pkt_data p = pkt_data q"

section \<open>Basic facts\<close>

lemma le_word_step:
  "ucast (ucast (w :: ssize_t) :: byte) OR push_bit 8 (take_bit m (drop_bit 8 w))
     = take_bit (8 + m) w"
proof (rule bit_word_eqI)
  fix n :: nat
  assume n: "n < LENGTH(64)"
  have "8 \<le> n \<Longrightarrow> 8 + (n - 8) = n" by simp
  then show "bit (ucast (ucast w :: byte) OR push_bit 8 (take_bit m (drop_bit 8 w))) n
      = bit (take_bit (8 + m) w) n"
    using n by (cases "n < 8") (auto simp add: bit_simps)
qed

lemma le_word_le_bytes: "le_word (le_bytes n w) = take_bit (8 * n) w"
  by (induction n arbitrary: w) (simp_all add: le_word_step)

lemma length_le_bytes: "length (le_bytes n w) = n"
  by (induction n arbitrary: w) simp_all

lemma le_word_prefix: "le_word (le_bytes sizeof_ssize_t w) = w"
  by (simp add: le_word_le_bytes sizeof_ssize_t_def take_bit_word_eq_self)

lemma unat_ssize_of_nat: "n < 2 ^ 63 \<Longrightarrow> unat (of_nat n :: ssize_t) = n"
  by (simp add: unat_of_nat)

lemma sint_ssize_of_nat: "n < 2 ^ 63 \<Longrightarrow> sint (of_nat n :: ssize_t) = int n"
proof -
  assume n: "n < 2 ^ 63"
  then have "int n < 2 ^ 63" by (metis of_nat_less_iff of_nat_numeral of_nat_power)
  then show ?thesis
    by (simp add: signed_of_nat signed_take_bit_int_eq_self)
qed

lemma ssize_of_nat_neq_0: "0 < n \<Longrightarrow> n < 2 ^ 63 \<Longrightarrow> (of_nat n :: ssize_t) \<noteq> 0"
  using unat_ssize_of_nat [of n] by auto

lemma iov_size_concat: "iov_size iov = length (concat iov)"
  by (simp add: iov_size_def length_concat)

text \<open>What a send on a connected socket puts on the wire.\<close>

lemma sock_send_emits:
  assumes fd: "0 \<le> sockfd e" and pos: "0 < iov_size iov" and small: "iov_size iov < 2 ^ 63"
  shows "colo_proxy_sock_send e iov =
           (of_nat (iov_size iov),
            e\<lparr>sock_tx := sock_tx e @ le_bytes sizeof_ssize_t (of_nat (iov_size iov)) @ concat iov\<rparr>)"
proof -
  have nz: "(of_nat (iov_size iov) :: ssize_t) \<noteq> 0"
    using pos small by (rule ssize_of_nat_neq_0)
  have s8: "sint (of_nat (length (le_bytes sizeof_ssize_t (of_nat (iov_size iov)))) :: ssize_t) = 8"
    by (simp add: length_le_bytes sizeof_ssize_t_def)
  show ?thesis
    using fd nz s8
    by (simp add: colo_proxy_sock_send_def iov_send_def Let_def unat_ssize_of_nat [OF small])
      (simp add: iov_size_concat)
qed

lemma sock_send_empty:
  "iov_size iov = 0 \<Longrightarrow> colo_proxy_sock_send e iov = (0, e)"
  by (simp add: colo_proxy_sock_send_def)

lemma sock_send_bad_fd:
  "sockfd e < 0 \<Longrightarrow> snd (colo_proxy_sock_send e iov) = e"
  by (simp add: colo_proxy_sock_send_def iov_send_def Let_def)

lemma recv_prefix:
  assumes fd: "0 \<le> sockfd e" and rx: "sock_rx e = le_bytes sizeof_ssize_t len @ rest"
  shows "iov_recv e sizeof_ssize_t = (le_bytes sizeof_ssize_t len, e\<lparr>sock_rx := rest\<rparr>)"
  using fd rx by (simp add: iov_recv_def length_le_bytes)

lemma fill_full: "length got = length buf \<Longrightarrow> fill buf got = got"
  by (simp add: fill_def)

lemma sock_receive_rejects:
  assumes fd: "0 \<le> sockfd e" and rx: "sock_rx e = le_bytes sizeof_ssize_t len @ rest"
    and bad: "sint len \<le> 0 \<or> B \<le> sint len"
  shows "colo_proxy_sock_receive B enq e = e\<lparr>sock_rx := rest\<rparr>"
  using bad
  by (auto simp add: colo_proxy_sock_receive_def recv_prefix [OF fd rx] fill_full length_le_bytes
      le_word_prefix Let_def)

lemma sock_receive_accepts:
  assumes fd: "0 \<le> sockfd e"
    and rx: "sock_rx e = le_bytes sizeof_ssize_t (of_nat (length payload)) @ payload @ rest"
    and pos: "0 < length payload" and small: "int (length payload) < B" and B: "B \<le> 2 ^ 63"
  shows "colo_proxy_sock_receive B enq e =
          (let e3 = e\<lparr>allocs := allocs e @ [length payload], sock_rx := rest\<rparr> in
           if colo_mode e = COLO_MODE_PRIMARY then enq payload (of_nat (length payload)) e3
           else e3\<lparr>incoming_queue := incoming_queue e @ [payload]\<rparr>)"
proof -
  have n63: "length payload < 2 ^ 63"
    using small B by (metis (no_types, opaque_lifting) less_le_trans of_nat_less_iff of_nat_numeral of_nat_power)
  have s: "sint (of_nat (length payload) :: ssize_t) = int (length payload)"
    using n63 by (rule sint_ssize_of_nat)
  show ?thesis
    using fd pos small s
    by (simp add: colo_proxy_sock_receive_def rx fill_full length_le_bytes
        le_word_prefix Let_def iov_recv_def)
qed

lemma running_engine_simps:
  "sockfd (running_engine m) = 7" "status (running_engine m) = COLO_PROXY_RUNNING"
  "colo_mode (running_engine m) = m" "sock_tx (running_engine m) = []"
  "incoming_queue (running_engine m) = []" "allocs (running_engine m) = []"
  "colo_conn_hash (running_engine m) = []"
  by (simp_all add: running_engine_def engine_init_def)

lemma le_bytes_numeral:
  "le_bytes (numeral k) w = ucast w # le_bytes (pred_numeral k) (drop_bit 8 w)"
  by (simp add: numeral_eq_Suc)

lemma le_bytes_1: "le_bytes 1 w = [ucast w]"
  by simp

lemma le_bytes_sizeof:
  "le_bytes sizeof_ssize_t w =
     [ucast w, ucast (drop_bit 8 w), ucast (drop_bit 16 w), ucast (drop_bit 24 w),
      ucast (drop_bit 32 w), ucast (drop_bit 40 w), ucast (drop_bit 48 w),
      ucast (drop_bit 56 w)]"
  by (simp add: sizeof_ssize_t_def le_bytes_numeral le_bytes_1 drop_bit_drop_bit)

lemma le_bytes_4: "le_bytes sizeof_ssize_t 4 = [4, 0, 0, 0, 0, 0, 0, 0]"
  by (simp add: le_bytes_sizeof)

section \<open>The packet-arrival path\<close>

text \<open>
  C10. For every input iovec, \<open>colo_proxy_receive_iov\<close> returns 0 when the state is not
  Running, and the packet is not consumed; when the state is Running it returns the full
  byte size of the iovec (the packet counts as sent; the function has no path to \<open>sent_cb\<close>,
  which is why the model has no such argument). In both cases the engine, with its registry,
  flow queues and checkpoint flag, is returned as it was.
\<close>

theorem receive_iov_result:
  "(status e \<noteq> COLO_PROXY_RUNNING \<longrightarrow> colo_proxy_receive_iov e iov = (0, e)) \<and>
   (status e = COLO_PROXY_RUNNING \<longrightarrow>
      colo_proxy_receive_iov e iov = (of_nat (iov_size iov), e) \<and>
      (iov_size iov < 2 ^ 63 \<longrightarrow>
         sint (fst (colo_proxy_receive_iov e iov)) = int (iov_size iov)))"
  by (simp add: colo_proxy_receive_iov_def sint_ssize_of_nat)

theorem receive_iov_result_witness:
  "colo_proxy_receive_iov (engine_init COLO_MODE_PRIMARY None NET_FILTER_DIRECTION_ALL)
       [[1, 2], [3]] =
     (0, engine_init COLO_MODE_PRIMARY None NET_FILTER_DIRECTION_ALL) \<and>
   colo_proxy_receive_iov (running_engine COLO_MODE_SECONDARY) [[1, 2], [3]] =
     (3, running_engine COLO_MODE_SECONDARY) \<and>
   sint (fst (colo_proxy_receive_iov (running_engine COLO_MODE_SECONDARY) [[1, 2], [3]])) = 3"
  using receive_iov_result [of "engine_init COLO_MODE_PRIMARY None NET_FILTER_DIRECTION_ALL" "[[1, 2], [3]]"]
    receive_iov_result [of "running_engine COLO_MODE_SECONDARY" "[[1, 2], [3]]"]
  by (simp add: engine_init_def running_engine_def iov_size_def)

text \<open>
  C1 fails on the code. The comment of the function says that it returns the size "when
  buffer a packet", and its two branches name the handlers that are to do so, but both are
  empty: a well-formed TCP/IPv4 frame of 54 bytes handed to a Running primary (or secondary)
  with an empty registry is reported as taken, all 54 bytes, and the engine is as before:
  the packet was not classified, no Connection was looked up or created (the registry and
  the connection list are still empty) and the packet is in no queue.
\<close>

theorem receive_iov_drops_tcp_frame:
  "status (running_engine COLO_MODE_PRIMARY) = COLO_PROXY_RUNNING \<and>
   length sample_tcp_frame = 54 \<and>
   colo_proxy_receive_iov (running_engine COLO_MODE_PRIMARY) [sample_tcp_frame] =
     (54, running_engine COLO_MODE_PRIMARY) \<and>
   colo_conn_hash (snd (colo_proxy_receive_iov (running_engine COLO_MODE_PRIMARY)
     [sample_tcp_frame])) = [] \<and>
   conn_list (snd (colo_proxy_receive_iov (running_engine COLO_MODE_PRIMARY)
     [sample_tcp_frame])) = [] \<and>
   colo_proxy_receive_iov (running_engine COLO_MODE_SECONDARY) [sample_tcp_frame] =
     (54, running_engine COLO_MODE_SECONDARY)"
proof -
  have len: "length sample_tcp_frame = 54"
    by (simp add: sample_tcp_frame_def)
  have sz: "iov_size [sample_tcp_frame] = 54"
    by (simp add: iov_size_def len)
  show ?thesis
    by (simp add: colo_proxy_receive_iov_def sz len running_engine_simps)
      (simp add: running_engine_def engine_init_def)
qed

section \<open>The cross-host transport\<close>

text \<open>
  C4, as the code has it. For every payload of more than 0 and fewer than \<open>NET_BUFSIZE\<close>
  bytes sent on a connected socket, \<open>colo_proxy_sock_send\<close> returns the payload size and
  appends to the stream the 8-byte length prefix immediately followed by exactly the payload
  bytes; and \<open>colo_proxy_sock_receive\<close> on the peer, reading what was sent, allocates one
  buffer of that size, takes the frame whole off the stream and passes on a byte-identical
  payload: to \<open>colo_proxy_enqueue_secondary_packet\<close> on a primary, to the incoming queue
  on a secondary.
\<close>

theorem sock_framing_roundtrip:
  assumes "0 \<le> sockfd s" and "0 < iov_size iov" and "int (iov_size iov) < B"
    and "B \<le> 2 ^ 63" and "0 \<le> sockfd r"
    and "sock_rx r =
           drop (length (sock_tx s)) (sock_tx (snd (colo_proxy_sock_send s iov))) @ rest"
  shows "colo_proxy_sock_send s iov =
           (of_nat (iov_size iov),
            s\<lparr>sock_tx := sock_tx s @ le_bytes sizeof_ssize_t (of_nat (iov_size iov)) @ concat iov\<rparr>) \<and>
         length (le_bytes sizeof_ssize_t (of_nat (iov_size iov))) = 8 \<and>
         length (concat iov) = iov_size iov \<and>
         colo_proxy_sock_receive B enq r =
           (if colo_mode r = COLO_MODE_PRIMARY
            then enq (concat iov) (of_nat (iov_size iov))
                   (r\<lparr>allocs := allocs r @ [iov_size iov], sock_rx := rest\<rparr>)
            else r\<lparr>allocs := allocs r @ [iov_size iov], sock_rx := rest,
                   incoming_queue := incoming_queue r @ [concat iov]\<rparr>)"
proof -
  have n63: "iov_size iov < 2 ^ 63"
    using assms(3,4)
    by (metis (no_types, opaque_lifting) less_le_trans of_nat_less_iff of_nat_numeral of_nat_power)
  note snd = sock_send_emits [OF assms(1) assms(2) n63]
  have rx: "sock_rx r = le_bytes sizeof_ssize_t (of_nat (length (concat iov))) @ concat iov @ rest"
    using assms(6) by (simp add: snd iov_size_concat)
  have "colo_proxy_sock_receive B enq r =
          (let e3 = r\<lparr>allocs := allocs r @ [length (concat iov)], sock_rx := rest\<rparr> in
           if colo_mode r = COLO_MODE_PRIMARY then enq (concat iov) (of_nat (length (concat iov))) e3
           else e3\<lparr>incoming_queue := incoming_queue r @ [concat iov]\<rparr>)"
    using assms(2,3) by (intro sock_receive_accepts [OF assms(5) rx _ _ assms(4)])
      (simp_all add: iov_size_concat)
  then show ?thesis
    by (simp add: snd length_le_bytes sizeof_ssize_t_def iov_size_concat Let_def)
qed

text \<open>The frame \<open>[4][0xDE 0xAD 0xBE 0xEF]\<close>, sent as two iovec elements.\<close>

theorem sock_framing_roundtrip_witness:
  "colo_proxy_sock_send (running_engine COLO_MODE_SECONDARY) [[222, 173], [190, 239]] =
     (4, (running_engine COLO_MODE_SECONDARY)
           \<lparr>sock_tx := [4, 0, 0, 0, 0, 0, 0, 0, 222, 173, 190, 239]\<rparr>) \<and>
   colo_proxy_sock_receive 69632 (\<lambda>buf len x. x)
     ((running_engine COLO_MODE_SECONDARY)
        \<lparr>sock_rx := [4, 0, 0, 0, 0, 0, 0, 0, 222, 173, 190, 239]\<rparr>) =
     (running_engine COLO_MODE_SECONDARY)
        \<lparr>allocs := [4], sock_rx := [], incoming_queue := [[222, 173, 190, 239]]\<rparr>"
proof -
  let ?s = "running_engine COLO_MODE_SECONDARY"
  let ?iov = "[[222, 173], [190, 239]] :: byte list list"
  let ?r = "?s\<lparr>sock_rx := [4, 0, 0, 0, 0, 0, 0, 0, 222, 173, 190, 239]\<rparr>"
  have sz: "iov_size ?iov = 4" by (simp add: iov_size_def)
  have tx: "sock_tx (snd (colo_proxy_sock_send ?s ?iov)) = [4, 0, 0, 0, 0, 0, 0, 0, 222, 173, 190, 239]"
    by (simp add: colo_proxy_sock_send_def iov_send_def sz le_bytes_4 running_engine_simps)
  have h6: "sock_rx ?r = drop (length (sock_tx ?s)) (sock_tx (snd (colo_proxy_sock_send ?s ?iov))) @ []"
    by (simp add: tx running_engine_simps)
  show ?thesis
    using sock_framing_roundtrip [of ?s ?iov 69632 ?r "[]" "\<lambda>buf len x. x", OF _ _ _ _ _ h6]
    by (simp add: sz le_bytes_4 running_engine_simps)
qed

text \<open>
  C4 as stated fails at both ends of the size range. An empty payload makes the sender emit
  nothing at all, not even a length prefix. A payload of \<open>NET_BUFSIZE\<close> = 69632 bytes is
  sent in full, and the receiver reads the prefix, delivers nothing and leaves the payload
  bytes on the stream.
\<close>

theorem sock_framing_fails_outside_bounds:
  "colo_proxy_sock_send (running_engine COLO_MODE_SECONDARY) [[]] =
     (0, running_engine COLO_MODE_SECONDARY) \<and>
   sock_tx (snd (colo_proxy_sock_send (running_engine COLO_MODE_SECONDARY) [replicate 69632 0])) =
     le_bytes sizeof_ssize_t 69632 @ replicate 69632 0 \<and>
   incoming_queue (colo_proxy_sock_receive 69632 (\<lambda>buf len x. x)
     ((running_engine COLO_MODE_SECONDARY)
        \<lparr>sock_rx := le_bytes sizeof_ssize_t 69632 @ replicate 69632 0\<rparr>)) = [] \<and>
   sock_rx (colo_proxy_sock_receive 69632 (\<lambda>buf len x. x)
     ((running_engine COLO_MODE_SECONDARY)
        \<lparr>sock_rx := le_bytes sizeof_ssize_t 69632 @ replicate 69632 0\<rparr>)) = replicate 69632 0"
proof -
  let ?s = "running_engine COLO_MODE_SECONDARY"
  have a: "colo_proxy_sock_send ?s [[]] = (0, ?s)"
    by (rule sock_send_empty) (simp add: iov_size_def)
  have sz: "iov_size [replicate 69632 (0::byte)] = 69632" by (simp add: iov_size_def)
  have b: "sock_tx (snd (colo_proxy_sock_send ?s [replicate 69632 0])) =
      le_bytes sizeof_ssize_t 69632 @ replicate 69632 0"
    using sock_send_emits [of ?s "[replicate 69632 0]"]
    by (simp add: sz running_engine_simps)
  have c: "colo_proxy_sock_receive 69632 (\<lambda>buf len x. x)
      (?s\<lparr>sock_rx := le_bytes sizeof_ssize_t 69632 @ replicate 69632 0\<rparr>)
     = ?s\<lparr>sock_rx := replicate 69632 0\<rparr>"
    using sock_receive_rejects
      [of "?s\<lparr>sock_rx := le_bytes sizeof_ssize_t 69632 @ replicate 69632 0\<rparr>" 69632
          "replicate 69632 0" 69632 "\<lambda>buf len x. x"]
    by (simp add: running_engine_simps)
  show ?thesis by (simp add: a b c running_engine_simps)
qed

text \<open>The receive handler never writes the status itself.\<close>

lemma status_sock_receive:
  assumes "\<forall>buf l x. status (enq buf l x) = status x"
  shows "status (colo_proxy_sock_receive B enq e) = status e"
  using assms by (simp add: colo_proxy_sock_receive_def iov_recv_def Let_def)

lemma status_sock_receive_funpow:
  assumes "\<forall>buf l x. status (enq buf l x) = status x"
  shows "status ((colo_proxy_sock_receive B enq ^^ n) e) = status e"
  by (induction n) (simp_all add: status_sock_receive [OF assms])

text \<open>
  C5, as the code has it. For every received frame whose declared payload length is at least
  \<open>NET_BUFSIZE\<close>, the call of the receive handler that reads its length prefix allocates no
  payload buffer, and the frame is not treated as a fatal transport error: that call leaves
  the status as it was (a Running engine stays Running), and so does every later call of the
  handler (the enqueue function, which the file does not define, being taken not to write the
  status); the handler returns nothing to its caller. What becomes of the payload bytes is
  not part of this statement.
\<close>

theorem sock_receive_oversize_not_fatal:
  assumes "0 \<le> sockfd e" and "sock_rx e = le_bytes sizeof_ssize_t len @ rest"
    and "B \<le> sint len"
  shows "allocs (colo_proxy_sock_receive B enq e) = allocs e \<and>
         status (colo_proxy_sock_receive B enq e) = status e \<and>
         ((\<forall>buf l x. status (enq buf l x) = status x) \<longrightarrow>
            status ((colo_proxy_sock_receive B enq ^^ n) e) = status e)"
  using sock_receive_rejects [OF assms(1) assms(2), of B enq] assms(3)
    status_sock_receive_funpow [where enq = enq and B = B and n = n and e = e]
  by simp

theorem sock_receive_oversize_not_fatal_witness:
  "allocs (colo_proxy_sock_receive 69632 (\<lambda>buf len x. x)
      ((running_engine COLO_MODE_SECONDARY)
         \<lparr>sock_rx := le_bytes sizeof_ssize_t 69632 @ [1, 2]\<rparr>)) = [] \<and>
   status (colo_proxy_sock_receive 69632 (\<lambda>buf len x. x)
      ((running_engine COLO_MODE_SECONDARY)
         \<lparr>sock_rx := le_bytes sizeof_ssize_t 69632 @ [1, 2]\<rparr>)) = COLO_PROXY_RUNNING \<and>
   status ((colo_proxy_sock_receive 69632 (\<lambda>buf len x. x) ^^ 3)
      ((running_engine COLO_MODE_SECONDARY)
         \<lparr>sock_rx := le_bytes sizeof_ssize_t 69632 @ [1, 2]\<rparr>)) = COLO_PROXY_RUNNING"
  using sock_receive_oversize_not_fatal
    [of "(running_engine COLO_MODE_SECONDARY)\<lparr>sock_rx := le_bytes sizeof_ssize_t 69632 @ [1, 2]\<rparr>"
        69632 "[1, 2]" 69632 "\<lambda>buf len x. x" 3]
  by (simp add: running_engine_simps del: funpow.simps)

text \<open>
  C5 as stated fails: after a frame declaring 69632 bytes with \<open>NET_BUFSIZE\<close> = 69632, the
  Running engine is still Running, not Done.
\<close>

theorem sock_receive_oversize_stays_running:
  "status (colo_proxy_sock_receive 69632 (\<lambda>buf len x. x)
      ((running_engine COLO_MODE_PRIMARY)\<lparr>sock_rx := le_bytes sizeof_ssize_t 69632 @ [1, 2]\<rparr>))
    = COLO_PROXY_RUNNING"
  using sock_receive_rejects
    [of "(running_engine COLO_MODE_PRIMARY)\<lparr>sock_rx := le_bytes sizeof_ssize_t 69632 @ [1, 2]\<rparr>"
        69632 "[1, 2]" 69632 "\<lambda>buf len x. x"]
  by (simp add: running_engine_simps)

lemma engine_init_simps:
  "typename (engine_init m a d) = TYPE_FILTER_COLO_PROXY"
  "colo_mode (engine_init m a d) = m"
  "netdev_id (engine_init m a d) = ''hn0''"
  "fd_handlers (engine_init m a d) = {}"
  "closed_fds (engine_init m a d) = []"
  "error_reports (engine_init m a d) = []"
  "status (engine_init m a d) = COLO_PROXY_NONE"
  "thread (engine_init m a d) = Thread_none"
  "sockfd (engine_init m a d) = 0"
  "colo_do_checkpoint (engine_init m a d) = False"
  "addr (engine_init m a d) = a"
  "direction (engine_init m a d) = d"
  by (simp_all add: engine_init_def)

section \<open>Lifecycle\<close>

text \<open>The accept loop returns at the first outcome that is not an interrupted call.\<close>

lemma accept_loop_returns:
  assumes "\<forall>j<n. fst (acc (i + j)) < 0 \<and> snd (acc (i + j)) = EINTR"
    and "\<not> (fst (acc (i + n)) < 0 \<and> snd (acc (i + n)) = EINTR)"
  shows "accept_loop acc i = Some (acc (i + n))"
  using assms
proof (induction n arbitrary: i)
  case 0
  then show ?case
    by (subst accept_loop.simps) (auto split: prod.splits)
next
  case (Suc n)
  have first: "fst (acc i) < 0 \<and> snd (acc i) = EINTR"
    using Suc.prems(1) [rule_format, of 0] by simp
  have rest: "\<forall>j<n. fst (acc (Suc i + j)) < 0 \<and> snd (acc (Suc i + j)) = EINTR"
    using Suc.prems(1) by (metis Suc_less_eq add_Suc_shift)
  have last: "\<not> (fst (acc (Suc i + n)) < 0 \<and> snd (acc (Suc i + n)) = EINTR)"
    using Suc.prems(2) by simp
  have "accept_loop acc i = accept_loop acc (Suc i)"
    using first by (subst accept_loop.simps) (auto split: prod.splits)
  then show ?case
    using Suc.IH [OF rest last] by simp
qed

text \<open>
  The results of \<open>colo_proxy_start\<close>, case by case, on a colo-proxy filter whose mode is
  the one asked for. In Primary mode it connects; on success, and when the thread name fits
  its buffer (a netdev id of at most 1009 characters), it records the socket, installs the
  receive handler, sets the state to Running, starts the compare thread and returns 0; with
  a longer netdev id the \<open>sprintf\<close> overruns the buffer. In Secondary mode it
  listens and waits for a peer; once a peer is accepted it records the socket, installs the
  handler, sets the state to Running and returns 0, and the thread field is not touched (no
  compare thread). When the transport cannot be established (connect fails; listen fails;
  accept fails with an error other than \<open>EINTR\<close>) it returns -1, and apart from the
  report (and the closed listening descriptor) the engine is as before: the state has not
  become Running and no thread was started.
\<close>

lemma colo_proxy_start_modes:
  assumes "typename e = TYPE_FILTER_COLO_PROXY" and "colo_mode e = mode"
  shows
    "(mode = COLO_MODE_PRIMARY \<and> 0 \<le> inet_connect_res E \<and>
      length (netdev_id e) \<le> 1009 \<longrightarrow>
        colo_proxy_start E mode e =
          Some (Inr (0, e\<lparr>sockfd := inet_connect_res E,
                          status := COLO_PROXY_RUNNING,
                          thread := Thread_running (''proxy compare '' @ netdev_id e),
                          fd_handlers := insert (inet_connect_res E) (fd_handlers e)\<rparr>))) \<and>
     (mode = COLO_MODE_PRIMARY \<and> 0 \<le> inet_connect_res E \<and>
      1009 < length (netdev_id e) \<longrightarrow>
        colo_proxy_start E mode e = Some (Inl Buffer_overflow)) \<and>
     (mode = COLO_MODE_PRIMARY \<and> inet_connect_res E < 0 \<longrightarrow>
        colo_proxy_start E mode e =
          Some (Inr (- 1, e\<lparr>error_reports :=
                              error_reports e @ [''colo proxy inet_connect failed'']\<rparr>))) \<and>
     (mode = COLO_MODE_SECONDARY \<and> inet_listen_res E < 0 \<longrightarrow>
        colo_proxy_start E mode e =
          Some (Inr (- 1, e\<lparr>error_reports :=
                              error_reports e @ [''colo proxy listen failed'']\<rparr>))) \<and>
     (mode = COLO_MODE_SECONDARY \<and> 0 \<le> inet_listen_res E \<and>
      (\<forall>j<n. fst (qemu_accept_res E j) < 0 \<and> snd (qemu_accept_res E j) = EINTR) \<and>
      fst (qemu_accept_res E n) < 0 \<and> snd (qemu_accept_res E n) \<noteq> EINTR \<longrightarrow>
        colo_proxy_start E mode e =
          Some (Inr (- 1, e\<lparr>closed_fds := closed_fds e @ [inet_listen_res E],
                            error_reports :=
                              error_reports e @
                                [''colo proxy accept failed('' @
                                 strerror_res E (snd (qemu_accept_res E n)) @ '')'']\<rparr>))) \<and>
     (mode = COLO_MODE_SECONDARY \<and> 0 \<le> inet_listen_res E \<and>
      (\<forall>j<n. fst (qemu_accept_res E j) < 0 \<and> snd (qemu_accept_res E j) = EINTR) \<and>
      0 \<le> fst (qemu_accept_res E n) \<longrightarrow>
        colo_proxy_start E mode e =
          Some (Inr (0, e\<lparr>sockfd := fst (qemu_accept_res E n),
                          status := COLO_PROXY_RUNNING,
                          fd_handlers := insert (fst (qemu_accept_res E n)) (fd_handlers e),
                          closed_fds := closed_fds e @ [inet_listen_res E]\<rparr>)))"
proof -
  have loop: "accept_loop (qemu_accept_res E) 0 = Some (qemu_accept_res E n)"
    if "\<forall>j<n. fst (qemu_accept_res E j) < 0 \<and> snd (qemu_accept_res E j) = EINTR"
      and "\<not> (fst (qemu_accept_res E n) < 0 \<and> snd (qemu_accept_res E n) = EINTR)"
    using accept_loop_returns [of n "qemu_accept_res E" 0] that by simp
  show ?thesis
    using assms
    by (auto simp add: colo_proxy_start_def colo_proxy_start_one_def colo_proxy_connect_def
        colo_wait_incoming_def sprintf_thread_name_def Let_def loop split: prod.splits)
qed

lemma colo_proxy_start_modes_samples:
  "colo_proxy_start (sample_env 5 6 9 0) COLO_MODE_PRIMARY
       (engine_init COLO_MODE_PRIMARY (Some '':12345'') NET_FILTER_DIRECTION_ALL) =
     Some (Inr (0, (engine_init COLO_MODE_PRIMARY (Some '':12345'') NET_FILTER_DIRECTION_ALL)
                     \<lparr>sockfd := 5, status := COLO_PROXY_RUNNING,
                      thread := Thread_running ''proxy compare hn0'',
                      fd_handlers := {5}\<rparr>)) \<and>
   colo_proxy_start (sample_env (- 1) 6 9 0) COLO_MODE_PRIMARY
       (engine_init COLO_MODE_PRIMARY (Some '':12345'') NET_FILTER_DIRECTION_ALL) =
     Some (Inr (- 1, (engine_init COLO_MODE_PRIMARY (Some '':12345'') NET_FILTER_DIRECTION_ALL)
                     \<lparr>error_reports := [''colo proxy inet_connect failed'']\<rparr>)) \<and>
   colo_proxy_start (sample_env 5 (- 1) 9 0) COLO_MODE_SECONDARY
       (engine_init COLO_MODE_SECONDARY (Some '':12345'') NET_FILTER_DIRECTION_ALL) =
     Some (Inr (- 1, (engine_init COLO_MODE_SECONDARY (Some '':12345'') NET_FILTER_DIRECTION_ALL)
                     \<lparr>error_reports := [''colo proxy listen failed'']\<rparr>)) \<and>
   colo_proxy_start (sample_env 5 6 (- 1) 24) COLO_MODE_SECONDARY
       (engine_init COLO_MODE_SECONDARY (Some '':12345'') NET_FILTER_DIRECTION_ALL) =
     Some (Inr (- 1, (engine_init COLO_MODE_SECONDARY (Some '':12345'') NET_FILTER_DIRECTION_ALL)
                     \<lparr>closed_fds := [6],
                      error_reports :=
                        [''colo proxy accept failed(Too many open files)'']\<rparr>)) \<and>
   colo_proxy_start (sample_env 5 6 9 0) COLO_MODE_SECONDARY
       (engine_init COLO_MODE_SECONDARY (Some '':12345'') NET_FILTER_DIRECTION_ALL) =
     Some (Inr (0, (engine_init COLO_MODE_SECONDARY (Some '':12345'') NET_FILTER_DIRECTION_ALL)
                     \<lparr>sockfd := 9, status := COLO_PROXY_RUNNING, fd_handlers := {9},
                      closed_fds := [6]\<rparr>))"
proof -
  let ?p = "engine_init COLO_MODE_PRIMARY (Some '':12345'') NET_FILTER_DIRECTION_ALL"
  let ?s = "engine_init COLO_MODE_SECONDARY (Some '':12345'') NET_FILTER_DIRECTION_ALL"
  note ev = sample_env_def engine_init_simps EINTR_def
  have 1: "colo_proxy_start (sample_env 5 6 9 0) COLO_MODE_PRIMARY ?p =
     Some (Inr (0, ?p\<lparr>sockfd := 5, status := COLO_PROXY_RUNNING,
                      thread := Thread_running ''proxy compare hn0'', fd_handlers := {5}\<rparr>))"
    using colo_proxy_start_modes [of ?p COLO_MODE_PRIMARY "sample_env 5 6 9 0" 2]
    by (simp add: ev)
  have 2: "colo_proxy_start (sample_env (- 1) 6 9 0) COLO_MODE_PRIMARY ?p =
     Some (Inr (- 1, ?p\<lparr>error_reports := [''colo proxy inet_connect failed'']\<rparr>))"
    using colo_proxy_start_modes [of ?p COLO_MODE_PRIMARY "sample_env (- 1) 6 9 0" 2]
    by (simp add: ev)
  have 3: "colo_proxy_start (sample_env 5 (- 1) 9 0) COLO_MODE_SECONDARY ?s =
     Some (Inr (- 1, ?s\<lparr>error_reports := [''colo proxy listen failed'']\<rparr>))"
    using colo_proxy_start_modes [of ?s COLO_MODE_SECONDARY "sample_env 5 (- 1) 9 0" 2]
    by (simp add: ev)
  have 4: "colo_proxy_start (sample_env 5 6 (- 1) 24) COLO_MODE_SECONDARY ?s =
     Some (Inr (- 1, ?s\<lparr>closed_fds := [6],
                       error_reports := [''colo proxy accept failed(Too many open files)'']\<rparr>))"
    using colo_proxy_start_modes [of ?s COLO_MODE_SECONDARY "sample_env 5 6 (- 1) 24" 2]
    by (simp add: ev)
  have 5: "colo_proxy_start (sample_env 5 6 9 0) COLO_MODE_SECONDARY ?s =
     Some (Inr (0, ?s\<lparr>sockfd := 9, status := COLO_PROXY_RUNNING, fd_handlers := {9},
                      closed_fds := [6]\<rparr>))"
    using colo_proxy_start_modes [of ?s COLO_MODE_SECONDARY "sample_env 5 6 9 0" 2]
    by (simp add: ev)
  show ?thesis using 1 2 3 4 5 by simp
qed

text \<open>
  C7 fails on the code. A primary whose netdev id has 1010 characters connects (the host
  answers \<open>inet_connect\<close> with descriptor 5), and \<open>colo_proxy_start_one\<close> then writes
  "proxy compare " and the id, 1025 bytes with the terminating NUL, into the 1024 bytes of
  \<open>thread_name\<close>: the start does not return 0 with the state Running and the compare
  thread started, it overruns the buffer. With an id of 1009 characters the same start
  succeeds.
\<close>

theorem colo_proxy_start_long_netdev_id:
  "colo_proxy_start (sample_env 5 6 9 0) COLO_MODE_PRIMARY
     ((engine_init COLO_MODE_PRIMARY (Some '':12345'') NET_FILTER_DIRECTION_ALL)
        \<lparr>netdev_id := replicate 1010 CHR ''a''\<rparr>) = Some (Inl Buffer_overflow) \<and>
   colo_proxy_start (sample_env 5 6 9 0) COLO_MODE_PRIMARY
     ((engine_init COLO_MODE_PRIMARY (Some '':12345'') NET_FILTER_DIRECTION_ALL)
        \<lparr>netdev_id := replicate 1009 CHR ''a''\<rparr>) =
     Some (Inr (0, (engine_init COLO_MODE_PRIMARY (Some '':12345'') NET_FILTER_DIRECTION_ALL)
                     \<lparr>netdev_id := replicate 1009 CHR ''a'', sockfd := 5,
                      status := COLO_PROXY_RUNNING,
                      thread := Thread_running (''proxy compare '' @ replicate 1009 CHR ''a''),
                      fd_handlers := {5}\<rparr>))"
  by (simp add: colo_proxy_start_def colo_proxy_start_one_def colo_proxy_connect_def
      sprintf_thread_name_def sample_env_def engine_init_def TYPE_FILTER_COLO_PROXY_def Let_def)

text \<open>
  C8. On a colo-proxy filter whose mode is the one asked for, \<open>colo_proxy_stop\<close> returns
  with the state Done; when the engine has a socket (\<open>sockfd >= 0\<close>) its fd handler is
  removed and the socket closed; and in Primary mode the wake condition of the compare thread
  is set and the thread joined, in this order, after the checkpoint function. The two
  checkpoint functions the file calls and does not define are taken to leave the status and
  the socket bookkeeping alone.
\<close>

theorem colo_proxy_stop_teardown:
  assumes "typename e = TYPE_FILTER_COLO_PROXY" and "colo_mode e = mode"
    and "keeps_transport_state primary_checkpoint"
    and "keeps_transport_state secondary_checkpoint"
  shows "\<exists>e'. colo_proxy_stop primary_checkpoint secondary_checkpoint mode e = Inr e' \<and>
          status e' = COLO_PROXY_DONE \<and>
          (0 \<le> sockfd e \<longrightarrow>
             sockfd e \<notin> fd_handlers e' \<and> closed_fds e' = closed_fds e @ [sockfd e]) \<and>
          (sockfd e < 0 \<longrightarrow>
             fd_handlers e' = fd_handlers e \<and> closed_fds e' = closed_fds e) \<and>
          (mode = COLO_MODE_PRIMARY \<longrightarrow>
             need_compare_ev e' = Some True \<and> thread e' = Thread_joined \<and>
             e' = qemu_thread_join (qemu_event_set (primary_checkpoint
                    (if 0 \<le> sockfd e
                     then e\<lparr>status := COLO_PROXY_DONE,
                            fd_handlers := fd_handlers e - {sockfd e},
                            closed_fds := closed_fds e @ [sockfd e]\<rparr>
                     else e\<lparr>status := COLO_PROXY_DONE\<rparr>))))"
  using assms
  by (cases mode)
    (auto simp add: colo_proxy_stop_def colo_proxy_stop_one_def Let_def keeps_transport_state_def
      qemu_thread_join_def qemu_event_set_def)

lemma keeps_transport_state_id: "keeps_transport_state (\<lambda>x. x)"
  by (simp add: keeps_transport_state_def)

theorem colo_proxy_stop_teardown_witness:
  "colo_proxy_stop (\<lambda>x. x) (\<lambda>x. x) COLO_MODE_PRIMARY
     ((running_engine COLO_MODE_PRIMARY)\<lparr>thread := Thread_running ''proxy compare hn0''\<rparr>) =
   Inr ((running_engine COLO_MODE_PRIMARY)
          \<lparr>status := COLO_PROXY_DONE, need_compare_ev := Some True, thread := Thread_joined,
           fd_handlers := {}, closed_fds := [7]\<rparr>) \<and>
   (\<exists>e'. colo_proxy_stop (\<lambda>x. x) (\<lambda>x. x) COLO_MODE_SECONDARY
            ((running_engine COLO_MODE_SECONDARY)\<lparr>sockfd := - 1\<rparr>) = Inr e' \<and>
         status e' = COLO_PROXY_DONE \<and> fd_handlers e' = {7} \<and> closed_fds e' = [])"
proof -
  let ?e = "(running_engine COLO_MODE_PRIMARY)\<lparr>thread := Thread_running ''proxy compare hn0''\<rparr>"
  let ?f = "(running_engine COLO_MODE_SECONDARY)\<lparr>sockfd := - 1\<rparr>"
  have ty: "typename ?e = TYPE_FILTER_COLO_PROXY" and md: "colo_mode ?e = COLO_MODE_PRIMARY"
    and ty2: "typename ?f = TYPE_FILTER_COLO_PROXY" and md2: "colo_mode ?f = COLO_MODE_SECONDARY"
    by (simp_all add: running_engine_def engine_init_def)
  from colo_proxy_stop_teardown [OF ty md keeps_transport_state_id keeps_transport_state_id]
  obtain e' where
    "colo_proxy_stop (\<lambda>x. x) (\<lambda>x. x) COLO_MODE_PRIMARY ?e = Inr e'"
    "e' = qemu_thread_join (qemu_event_set
            (if 0 \<le> sockfd ?e
             then ?e\<lparr>status := COLO_PROXY_DONE, fd_handlers := fd_handlers ?e - {sockfd ?e},
                     closed_fds := closed_fds ?e @ [sockfd ?e]\<rparr>
             else ?e\<lparr>status := COLO_PROXY_DONE\<rparr>))"
    by auto
  then have 1: "colo_proxy_stop (\<lambda>x. x) (\<lambda>x. x) COLO_MODE_PRIMARY ?e =
      Inr ((running_engine COLO_MODE_PRIMARY)
          \<lparr>status := COLO_PROXY_DONE, need_compare_ev := Some True, thread := Thread_joined,
           fd_handlers := {}, closed_fds := [7]\<rparr>)"
    by (simp add: running_engine_def engine_init_def qemu_thread_join_def qemu_event_set_def)
  from colo_proxy_stop_teardown [OF ty2 md2 keeps_transport_state_id keeps_transport_state_id]
  have 2: "\<exists>e'. colo_proxy_stop (\<lambda>x. x) (\<lambda>x. x) COLO_MODE_SECONDARY ?f = Inr e' \<and>
         status e' = COLO_PROXY_DONE \<and> fd_handlers e' = {7} \<and> closed_fds e' = []"
    by (simp add: running_engine_def engine_init_def)
  from 1 2 show ?thesis by simp
qed

section \<open>The checkpoint flag\<close>

lemma flag_sock_send: "colo_do_checkpoint (snd (colo_proxy_sock_send e iov)) = colo_do_checkpoint e"
  by (simp add: colo_proxy_sock_send_def iov_send_def Let_def)

lemma flag_sock_receive:
  assumes "\<forall>buf len. keeps_checkpoint_flag (enq buf len)" and "colo_do_checkpoint e"
  shows "colo_do_checkpoint (colo_proxy_sock_receive B enq e)"
  using assms
  by (simp add: colo_proxy_sock_receive_def iov_recv_def Let_def keeps_checkpoint_flag_def)

lemma flag_receive_iov:
  "colo_do_checkpoint (snd (colo_proxy_receive_iov e iov)) = colo_do_checkpoint e"
  by (simp add: colo_proxy_receive_iov_def)

lemma flag_cleanup: "colo_do_checkpoint (colo_proxy_cleanup e) = colo_do_checkpoint e"
  by (simp add: colo_proxy_cleanup_def)

lemma flag_wait_incoming:
  "colo_wait_incoming E e = Some (ret, e1) \<Longrightarrow> colo_do_checkpoint e1 = colo_do_checkpoint e"
  by (auto simp add: colo_wait_incoming_def Let_def split: if_splits option.splits prod.splits)

lemma flag_start:
  "colo_proxy_start E mode e = Some (Inr (ret, e1)) \<Longrightarrow>
   colo_do_checkpoint e1 = colo_do_checkpoint e"
  by (auto simp add: colo_proxy_start_def colo_proxy_start_one_def colo_proxy_connect_def Let_def
      dest: flag_wait_incoming split: if_splits option.splits prod.splits sum.splits)

lemma flag_stop:
  assumes "keeps_checkpoint_flag pc" and "keeps_checkpoint_flag sc" and "colo_do_checkpoint e"
    and "colo_proxy_stop pc sc mode e = Inr e1"
  shows "colo_do_checkpoint e1"
  using assms
  by (auto simp add: colo_proxy_stop_def colo_proxy_stop_one_def Let_def keeps_checkpoint_flag_def
      qemu_thread_join_def qemu_event_set_def split: if_splits)

lemma exec_keeps_flag:
  assumes "ctx_keeps_flag X" and "op \<noteq> Op_setup" and "colo_do_checkpoint e"
    and "exec X op e = Some e1"
  shows "colo_do_checkpoint e1"
proof (cases op)
  case Op_setup
  with assms(2) show ?thesis by simp
next
  case Op_query_checkpoint
  with assms show ?thesis by (auto simp add: colo_proxy_query_checkpoint_def)
next
  case Op_notify_checkpoint
  with assms show ?thesis by (auto simp add: colo_proxy_notify_checkpoint_def)
next
  case (Op_sock_send iov)
  with assms show ?thesis by (auto simp add: flag_sock_send)
next
  case Op_sock_receive
  with assms show ?thesis by (auto simp add: ctx_keeps_flag_def intro: flag_sock_receive)
next
  case (Op_receive_iov iov)
  with assms show ?thesis by (auto simp add: flag_receive_iov)
next
  case Op_cleanup
  with assms show ?thesis by (auto simp add: flag_cleanup)
next
  case (Op_start mode)
  with assms show ?thesis
    by (auto simp add: flag_start split: option.splits sum.splits prod.splits)
next
  case (Op_stop mode)
  with assms show ?thesis
    by (auto simp add: ctx_keeps_flag_def split: sum.splits intro: flag_stop)
qed

lemma run_keeps_flag:
  assumes "ctx_keeps_flag X"
  shows "Op_setup \<notin> set ops \<Longrightarrow> colo_do_checkpoint e \<Longrightarrow> run X ops e = Some e1 \<Longrightarrow>
         colo_do_checkpoint e1"
proof (induction ops arbitrary: e)
  case Nil
  then show ?case by simp
next
  case (Cons op ops)
  from Cons.prems(3) obtain e2 where ex: "exec X op e = Some e2" and rn: "run X ops e2 = Some e1"
    by (auto split: option.splits)
  have "op \<noteq> Op_setup" using Cons.prems(1) by auto
  then have "colo_do_checkpoint e2"
    using exec_keeps_flag [OF assms _ Cons.prems(2) ex] by simp
  then show ?case using Cons.IH [OF _ _ rn] Cons.prems(1) by simp
qed

lemma sample_ctx_keeps_flag: "ctx_keeps_flag sample_ctx"
  by (simp add: ctx_keeps_flag_def keeps_checkpoint_flag_def sample_ctx_def)

text \<open>
  C3, as the code has it. \<open>colo_proxy_query_checkpoint\<close> is a pure read of the flag: it
  returns the flag and the engine unchanged, so repeated calls return the same value. Once
  the flag is set it is read as true after every sequence of operations of the file that
  return and do not contain \<open>colo_proxy_setup\<close> (the functions the file calls and does not
  define being taken not to clear it); the one operation that clears it is
  \<open>colo_proxy_setup\<close>, whenever it passes its two checks. The file has no
  checkpoint-completion handshake.
\<close>

theorem checkpoint_flag_cleared_by_setup_only:
  "colo_proxy_query_checkpoint e = (colo_do_checkpoint e, e) \<and>
   fst (colo_proxy_query_checkpoint (snd (colo_proxy_query_checkpoint e))) =
     fst (colo_proxy_query_checkpoint e) \<and>
   (ctx_keeps_flag X \<and> Op_setup \<notin> set ops \<and> colo_do_checkpoint e \<and> run X ops e = Some e1 \<longrightarrow>
      fst (colo_proxy_query_checkpoint e1)) \<and>
   (addr e \<noteq> None \<and> direction e = NET_FILTER_DIRECTION_ALL \<longrightarrow>
      \<not> fst (colo_proxy_query_checkpoint (snd (colo_proxy_setup e))))"
  using run_keeps_flag [of X ops e e1]
  by (auto simp add: colo_proxy_query_checkpoint_def colo_proxy_setup_def)

theorem checkpoint_flag_cleared_by_setup_only_witness:
  "fst (colo_proxy_query_checkpoint
      (the (run sample_ctx
         [Op_query_checkpoint, Op_receive_iov [[1]], Op_sock_send [[1]], Op_cleanup]
         (colo_proxy_notify_checkpoint (running_engine COLO_MODE_PRIMARY))))) \<and>
   \<not> fst (colo_proxy_query_checkpoint
      (snd (colo_proxy_setup (colo_proxy_notify_checkpoint (running_engine COLO_MODE_PRIMARY)))))"
proof -
  let ?e = "colo_proxy_notify_checkpoint (running_engine COLO_MODE_PRIMARY)"
  let ?ops = "[Op_query_checkpoint, Op_receive_iov [[1]], Op_sock_send [[1]], Op_cleanup]"
  have r: "run sample_ctx ?ops ?e = Some (the (run sample_ctx ?ops ?e))"
    by simp
  have f: "colo_do_checkpoint ?e" by (simp add: colo_proxy_notify_checkpoint_def)
  have a: "addr ?e \<noteq> None \<and> direction ?e = NET_FILTER_DIRECTION_ALL"
    by (simp add: colo_proxy_notify_checkpoint_def running_engine_def engine_init_def)
  show ?thesis
    using checkpoint_flag_cleared_by_setup_only
      [of ?e sample_ctx ?ops "the (run sample_ctx ?ops ?e)"] sample_ctx_keeps_flag r f a
    by (simp add: colo_proxy_query_checkpoint_def)
qed

text \<open>
  C3 as stated fails: with the flag raised by \<open>colo_proxy_notify_checkpoint\<close>, a call of
  \<open>colo_proxy_setup\<close>, the initialisation of a filter and no acknowledgement of a
  checkpoint, makes the next query return false.
\<close>

theorem setup_clears_checkpoint_flag:
  "fst (colo_proxy_query_checkpoint
          (colo_proxy_notify_checkpoint (running_engine COLO_MODE_PRIMARY))) \<and>
   \<not> fst (colo_proxy_query_checkpoint
      (snd (colo_proxy_setup (colo_proxy_notify_checkpoint (running_engine COLO_MODE_PRIMARY)))))"
  by (simp add: colo_proxy_query_checkpoint_def colo_proxy_notify_checkpoint_def
      colo_proxy_setup_def running_engine_def engine_init_def)

section \<open>The registry\<close>

lemma connection_key_equal_iff: "connection_key_equal k1 k2 \<longleftrightarrow> k1 = k2"
  by (cases k1, cases k2) (auto simp add: connection_key_equal_def)




lemma registry_lookup_hd: "registry_lookup k ((k, c) # reg) = Some c"
  by (simp add: registry_lookup_def connection_key_equal_iff)

lemma lookup_or_create_shape:
  "\<exists>c released rest. lookup_or_create bound k reg = (c, released, (k, c) # rest)"
  by (cases "registry_lookup k reg")
    (auto simp add: lookup_or_create_def split: prod.splits)


lemma lookup_or_create_flow:
  "fst (lookup_or_create bound k reg) = flow_of k reg"
  by (cases "registry_lookup k reg")
    (simp_all add: lookup_or_create_def flow_of_def split: prod.splits)

lemma flow_of_empty: "flow_of k [] = new_connection k"
  by (simp add: flow_of_def registry_lookup_def)





section \<open>The comparison task\<close>

lemma compare_heads_drop:
  "\<exists>n. n \<le> length ps \<and> n \<le> length qs \<and>
       (\<forall>i<n. same (ps ! i) (qs ! i)) \<and>
       compare_heads same ps qs =
         (drop n ps, drop n qs,
          drop n ps \<noteq> [] \<and> drop n qs \<noteq> [] \<and> \<not> same (hd (drop n ps)) (hd (drop n qs))) \<and>
       (drop n ps = [] \<or> drop n qs = [] \<or> \<not> same (hd (drop n ps)) (hd (drop n qs)))"
proof (induction same ps qs rule: compare_heads.induct)
  case (1 same p ps q qs)
  show ?case
  proof (cases "same p q")
    case True
    from 1 [OF True] obtain n where n: "n \<le> length ps" "n \<le> length qs"
      "\<forall>i<n. same (ps ! i) (qs ! i)"
      "compare_heads same ps qs =
         (drop n ps, drop n qs,
          drop n ps \<noteq> [] \<and> drop n qs \<noteq> [] \<and> \<not> same (hd (drop n ps)) (hd (drop n qs)))"
      "drop n ps = [] \<or> drop n qs = [] \<or> \<not> same (hd (drop n ps)) (hd (drop n qs))"
      by blast
    have all: "\<forall>i<Suc n. same ((p # ps) ! i) ((q # qs) ! i)"
      using True n(3) by (auto simp add: nth_Cons split: nat.splits)
    show ?thesis
      by (rule exI [of _ "Suc n"]) (use True n all in simp)
  next
    case False
    show ?thesis
      by (rule exI [of _ 0]) (use False in simp)
  qed
qed (rule exI [of _ 0], simp)+

lemma compare_scan_raises:
  assumes "(k, c) \<in> set (colo_conn_hash e)" and "snd (compare_connection same depth c)"
  shows "colo_do_checkpoint (colo_proxy_compare_scan same depth e)"
    and "(k, fst (compare_connection same depth c)) \<in>
           set (colo_conn_hash (colo_proxy_compare_scan same depth e))"
proof -
  have ex: "list_ex (\<lambda>kc. snd (compare_connection same depth (snd kc))) (colo_conn_hash e)"
    unfolding list_ex_iff using assms by (intro bexI [of _ "(k, c)"]) simp_all
  show "colo_do_checkpoint (colo_proxy_compare_scan same depth e)"
    using ex by (simp add: colo_proxy_compare_scan_def colo_proxy_notify_checkpoint_def Let_def)
  have "(k, fst (compare_connection same depth c)) \<in>
      (\<lambda>kc. (fst kc, fst (compare_connection same depth (snd kc)))) ` set (colo_conn_hash e)"
    using assms(1) by force
  then show "(k, fst (compare_connection same depth c)) \<in>
           set (colo_conn_hash (colo_proxy_compare_scan same depth e))"
    using ex by (simp add: colo_proxy_compare_scan_def colo_proxy_notify_checkpoint_def Let_def)
qed

text \<open>
  C2. For every flow marked as having pending work, the comparison removes from the heads of
  \<open>primary_list\<close> and \<open>secondary_list\<close> the same number n of packets, pairwise
  equivalent, and stops when a queue is empty or the two heads disagree; everything behind
  the n compared pairs is still queued, in order. A checkpoint is requested exactly when
  both queues are still non-empty (their heads disagree) or what is left of a queue is deeper
  than the bound; the scan of the engine then has the checkpoint flag set and keeps the flow,
  with these queues, in the registry.
\<close>

theorem compare_connection_policy:
  assumes "processing c"
  shows "(\<exists>n. n \<le> length (primary_list c) \<and> n \<le> length (secondary_list c) \<and>
            (\<forall>i<n. same (primary_list c ! i) (secondary_list c ! i)) \<and>
            primary_list (fst (compare_connection same depth c)) = drop n (primary_list c) \<and>
            secondary_list (fst (compare_connection same depth c)) =
              drop n (secondary_list c)) \<and>
         (primary_list (fst (compare_connection same depth c)) = [] \<or>
          secondary_list (fst (compare_connection same depth c)) = [] \<or>
          \<not> same (hd (primary_list (fst (compare_connection same depth c))))
                  (hd (secondary_list (fst (compare_connection same depth c))))) \<and>
         (snd (compare_connection same depth c) \<longleftrightarrow>
            primary_list (fst (compare_connection same depth c)) \<noteq> [] \<and>
            secondary_list (fst (compare_connection same depth c)) \<noteq> [] \<or>
            depth < length (primary_list (fst (compare_connection same depth c))) \<or>
            depth < length (secondary_list (fst (compare_connection same depth c)))) \<and>
         ((k, c) \<in> set (colo_conn_hash e) \<and> snd (compare_connection same depth c) \<longrightarrow>
            colo_do_checkpoint (colo_proxy_compare_scan same depth e) \<and>
            (k, fst (compare_connection same depth c)) \<in>
              set (colo_conn_hash (colo_proxy_compare_scan same depth e)))"
proof -
  obtain n where n: "n \<le> length (primary_list c)" "n \<le> length (secondary_list c)"
    "\<forall>i<n. same (primary_list c ! i) (secondary_list c ! i)"
    "compare_heads same (primary_list c) (secondary_list c) =
       (drop n (primary_list c), drop n (secondary_list c),
        drop n (primary_list c) \<noteq> [] \<and> drop n (secondary_list c) \<noteq> [] \<and>
        \<not> same (hd (drop n (primary_list c))) (hd (drop n (secondary_list c))))"
    "drop n (primary_list c) = [] \<or> drop n (secondary_list c) = [] \<or>
       \<not> same (hd (drop n (primary_list c))) (hd (drop n (secondary_list c)))"
    using compare_heads_drop [of "primary_list c" "secondary_list c" same] by blast
  have p: "primary_list (fst (compare_connection same depth c)) = drop n (primary_list c)"
    and q: "secondary_list (fst (compare_connection same depth c)) = drop n (secondary_list c)"
    and r: "snd (compare_connection same depth c) \<longleftrightarrow>
        (drop n (primary_list c) \<noteq> [] \<and> drop n (secondary_list c) \<noteq> [] \<and>
         \<not> same (hd (drop n (primary_list c))) (hd (drop n (secondary_list c)))) \<or>
        depth < length (drop n (primary_list c)) \<or> depth < length (drop n (secondary_list c))"
    using assms by (simp_all add: compare_connection_def n(4))
  have first: "\<exists>n. n \<le> length (primary_list c) \<and> n \<le> length (secondary_list c) \<and>
            (\<forall>i<n. same (primary_list c ! i) (secondary_list c ! i)) \<and>
            primary_list (fst (compare_connection same depth c)) = drop n (primary_list c) \<and>
            secondary_list (fst (compare_connection same depth c)) =
              drop n (secondary_list c)"
    using n(1,2,3) p q by blast
  have third: "snd (compare_connection same depth c) \<longleftrightarrow>
            primary_list (fst (compare_connection same depth c)) \<noteq> [] \<and>
            secondary_list (fst (compare_connection same depth c)) \<noteq> [] \<or>
            depth < length (primary_list (fst (compare_connection same depth c))) \<or>
            depth < length (secondary_list (fst (compare_connection same depth c)))"
    unfolding p q r using n(5) by blast
  have second: "primary_list (fst (compare_connection same depth c)) = [] \<or>
          secondary_list (fst (compare_connection same depth c)) = [] \<or>
          \<not> same (hd (primary_list (fst (compare_connection same depth c))))
                  (hd (secondary_list (fst (compare_connection same depth c))))"
    unfolding p q using n(5) .
  show ?thesis
    using first second third compare_scan_raises [of k c e same depth] by blast
qed

theorem compare_connection_policy_witness:
  "processing (sample_connection [sample_packet [170], sample_packet [187]]
                                 [sample_packet [170], sample_packet [255]]) \<and>
   compare_connection same_data 8
       (sample_connection [sample_packet [170], sample_packet [187]]
                          [sample_packet [170], sample_packet [255]]) =
     (sample_connection [sample_packet [187]] [sample_packet [255]], True) \<and>
   colo_do_checkpoint (colo_proxy_compare_scan same_data 8
     ((running_engine COLO_MODE_PRIMARY)
        \<lparr>colo_conn_hash :=
           [(sample_key 1, sample_connection [sample_packet [170], sample_packet [187]]
                                             [sample_packet [170], sample_packet [255]])]\<rparr>)) \<and>
   (sample_key 1, sample_connection [sample_packet [187]] [sample_packet [255]]) \<in>
     set (colo_conn_hash (colo_proxy_compare_scan same_data 8
       ((running_engine COLO_MODE_PRIMARY)
          \<lparr>colo_conn_hash :=
             [(sample_key 1, sample_connection [sample_packet [170], sample_packet [187]]
                                               [sample_packet [170], sample_packet [255]])]\<rparr>)))"
proof -
  let ?c = "sample_connection [sample_packet [170], sample_packet [187]]
                              [sample_packet [170], sample_packet [255]]"
  let ?e = "(running_engine COLO_MODE_PRIMARY)\<lparr>colo_conn_hash := [(sample_key 1, ?c)]\<rparr>"
  have pr: "processing ?c" by (simp add: sample_connection_def)
  have ev: "compare_connection same_data 8 ?c =
      (sample_connection [sample_packet [187]] [sample_packet [255]], True)"
    by (simp add: compare_connection_def sample_connection_def same_data_def sample_packet_def)
  have mem: "(sample_key 1, ?c) \<in> set (colo_conn_hash ?e)" by simp
  show ?thesis
    using compare_connection_policy [OF pr, of same_data 8 "sample_key 1" ?e] pr ev mem
    by simp
qed

section \<open>Dispatch of a received frame\<close>

lemma enqueue_secondary_flow:
  assumes "classify buf = Some k"
  shows "registry_lookup k (colo_conn_hash (colo_proxy_enqueue_secondary_packet classify buf len e)) =
           Some ((flow_of k (colo_conn_hash e))
                   \<lparr>secondary_list := secondary_list (flow_of k (colo_conn_hash e)) @
                        [\<lparr>pkt_data = buf, pkt_size = sint len\<rparr>],
                    processing := True\<rparr>)"
    and "need_compare_ev (colo_proxy_enqueue_secondary_packet classify buf len e) = Some True"
    and "incoming_queue (colo_proxy_enqueue_secondary_packet classify buf len e) = incoming_queue e"
proof -
  obtain c released rest where
    lc: "lookup_or_create (hashtable_max_size e) k (colo_conn_hash e) = (c, released, (k, c) # rest)"
    using lookup_or_create_shape by blast
  have c: "c = flow_of k (colo_conn_hash e)"
    using lookup_or_create_flow [of "hashtable_max_size e" k "colo_conn_hash e"] lc by simp
  show "registry_lookup k (colo_conn_hash (colo_proxy_enqueue_secondary_packet classify buf len e)) =
           Some ((flow_of k (colo_conn_hash e))
                   \<lparr>secondary_list := secondary_list (flow_of k (colo_conn_hash e)) @
                        [\<lparr>pkt_data = buf, pkt_size = sint len\<rparr>],
                    processing := True\<rparr>)"
    using assms lc
    by (simp add: colo_proxy_enqueue_secondary_packet_def Let_def qemu_event_set_def
        registry_lookup_hd c [symmetric])
  show "need_compare_ev (colo_proxy_enqueue_secondary_packet classify buf len e) = Some True"
    using assms lc
    by (simp add: colo_proxy_enqueue_secondary_packet_def Let_def qemu_event_set_def)
  show "incoming_queue (colo_proxy_enqueue_secondary_packet classify buf len e) = incoming_queue e"
    using assms lc
    by (simp add: colo_proxy_enqueue_secondary_packet_def Let_def qemu_event_set_def)
qed

text \<open>
  C9, as amended. For every frame accepted by the receive path (a length prefix between 0
  and \<open>NET_BUFSIZE\<close>, exclusive, and its payload, on a connected socket): on a primary,
  when the payload classifies to a key, the flow of that key is afterwards in the registry
  with the payload appended, as a packet, to its \<open>secondary_list\<close>, the wake condition of
  the comparison task is set, and nothing goes to the incoming queue; when the payload does
  not classify, it is placed in no flow and the engine is unchanged but for the consumed
  bytes and the allocated buffer; on a secondary the payload
  is handed to the incoming queue (the packet-delivery collaborator) and the engine is
  otherwise unchanged but for the consumed bytes and the allocated buffer, whatever the
  enqueue function is: nothing is queued for comparison.
\<close>

theorem sock_receive_dispatch:
  assumes "0 \<le> sockfd e"
    and "sock_rx e = le_bytes sizeof_ssize_t (of_nat (length payload)) @ payload @ rest"
    and "0 < length payload" and "int (length payload) < B" and "B \<le> 2 ^ 63"
  shows
    "(colo_mode e = COLO_MODE_PRIMARY \<and> classify payload = Some k \<longrightarrow>
        registry_lookup k (colo_conn_hash
            (colo_proxy_sock_receive B (colo_proxy_enqueue_secondary_packet classify) e)) =
          Some ((flow_of k (colo_conn_hash e))
                  \<lparr>secondary_list := secondary_list (flow_of k (colo_conn_hash e)) @
                       [\<lparr>pkt_data = payload, pkt_size = int (length payload)\<rparr>],
                   processing := True\<rparr>) \<and>
        need_compare_ev
            (colo_proxy_sock_receive B (colo_proxy_enqueue_secondary_packet classify) e) =
          Some True \<and>
        incoming_queue
            (colo_proxy_sock_receive B (colo_proxy_enqueue_secondary_packet classify) e) =
          incoming_queue e) \<and>
     (colo_mode e = COLO_MODE_PRIMARY \<and> classify payload = None \<longrightarrow>
        colo_proxy_sock_receive B (colo_proxy_enqueue_secondary_packet classify) e =
          e\<lparr>allocs := allocs e @ [length payload], sock_rx := rest\<rparr>) \<and>
     (colo_mode e = COLO_MODE_SECONDARY \<longrightarrow>
        colo_proxy_sock_receive B enq e =
          e\<lparr>allocs := allocs e @ [length payload], sock_rx := rest,
            incoming_queue := incoming_queue e @ [payload]\<rparr>)"
proof -
  note acc = sock_receive_accepts [OF assms]
  have n63: "length payload < 2 ^ 63"
    using assms(4,5)
    by (metis (no_types, opaque_lifting) less_le_trans of_nat_less_iff of_nat_numeral of_nat_power)
  have s: "sint (of_nat (length payload) :: ssize_t) = int (length payload)"
    using n63 by (rule sint_ssize_of_nat)
  have sec: "colo_proxy_sock_receive B enq e =
          e\<lparr>allocs := allocs e @ [length payload], sock_rx := rest,
            incoming_queue := incoming_queue e @ [payload]\<rparr>"
    if "colo_mode e = COLO_MODE_SECONDARY"
    using that by (simp add: acc Let_def)
  have pri: "colo_proxy_sock_receive B (colo_proxy_enqueue_secondary_packet classify) e =
      colo_proxy_enqueue_secondary_packet classify payload (of_nat (length payload))
        (e\<lparr>allocs := allocs e @ [length payload], sock_rx := rest\<rparr>)"
    if "colo_mode e = COLO_MODE_PRIMARY"
    using that by (simp add: acc Let_def)
  have unc: "colo_proxy_sock_receive B (colo_proxy_enqueue_secondary_packet classify) e =
      e\<lparr>allocs := allocs e @ [length payload], sock_rx := rest\<rparr>"
    if "colo_mode e = COLO_MODE_PRIMARY" and "classify payload = None"
    using that by (simp add: pri colo_proxy_enqueue_secondary_packet_def)
  show ?thesis
    using sec pri unc
      enqueue_secondary_flow [of classify payload k "of_nat (length payload)"
        "e\<lparr>allocs := allocs e @ [length payload], sock_rx := rest\<rparr>"]
    by (auto simp add: s)
qed

theorem sock_receive_dispatch_witness:
  "registry_lookup (sample_key 1) (colo_conn_hash
      (colo_proxy_sock_receive 69632
         (colo_proxy_enqueue_secondary_packet (\<lambda>buf. Some (sample_key 1)))
         ((running_engine COLO_MODE_PRIMARY)
            \<lparr>hashtable_max_size := 2,
             sock_rx := [4, 0, 0, 0, 0, 0, 0, 0, 222, 173, 190, 239]\<rparr>))) =
     Some ((new_connection (sample_key 1))
             \<lparr>secondary_list := [sample_packet [222, 173, 190, 239]], processing := True\<rparr>) \<and>
   need_compare_ev
      (colo_proxy_sock_receive 69632
         (colo_proxy_enqueue_secondary_packet (\<lambda>buf. Some (sample_key 1)))
         ((running_engine COLO_MODE_PRIMARY)
            \<lparr>hashtable_max_size := 2,
             sock_rx := [4, 0, 0, 0, 0, 0, 0, 0, 222, 173, 190, 239]\<rparr>)) = Some True \<and>
   colo_proxy_sock_receive 69632
       (colo_proxy_enqueue_secondary_packet (\<lambda>buf. Some (sample_key 1)))
       ((running_engine COLO_MODE_SECONDARY)
          \<lparr>sock_rx := [4, 0, 0, 0, 0, 0, 0, 0, 222, 173, 190, 239]\<rparr>) =
     (running_engine COLO_MODE_SECONDARY)
       \<lparr>allocs := [4], sock_rx := [], incoming_queue := [[222, 173, 190, 239]]\<rparr> \<and>
   colo_proxy_sock_receive 69632 (colo_proxy_enqueue_secondary_packet (\<lambda>buf. None))
       ((running_engine COLO_MODE_PRIMARY)
          \<lparr>hashtable_max_size := 2,
           sock_rx := [4, 0, 0, 0, 0, 0, 0, 0, 222, 173, 190, 239]\<rparr>) =
     (running_engine COLO_MODE_PRIMARY)
       \<lparr>hashtable_max_size := 2, allocs := [4], sock_rx := []\<rparr>"
proof -
  let ?rx = "[4, 0, 0, 0, 0, 0, 0, 0, 222, 173, 190, 239] :: byte list"
  let ?p = "(running_engine COLO_MODE_PRIMARY)\<lparr>hashtable_max_size := 2, sock_rx := ?rx\<rparr>"
  let ?s = "(running_engine COLO_MODE_SECONDARY)\<lparr>sock_rx := ?rx\<rparr>"
  let ?cl = "\<lambda>buf :: byte list. Some (sample_key 1)"
  have rxp: "sock_rx ?p = le_bytes sizeof_ssize_t (of_nat (length [222, 173, 190, 239 :: byte]))
      @ [222, 173, 190, 239] @ []"
    and rxs: "sock_rx ?s = le_bytes sizeof_ssize_t (of_nat (length [222, 173, 190, 239 :: byte]))
      @ [222, 173, 190, 239] @ []"
    by (simp_all add: le_bytes_4)
  have fdp: "0 \<le> sockfd ?p" and fds: "0 \<le> sockfd ?s"
    by (simp_all add: running_engine_simps)
  have b: "int (length [222, 173, 190, 239 :: byte]) < 69632" "(69632 :: int) \<le> 2 ^ 63"
    "0 < length [222, 173, 190, 239 :: byte]"
    by simp_all
  have 1: "registry_lookup (sample_key 1) (colo_conn_hash
      (colo_proxy_sock_receive 69632 (colo_proxy_enqueue_secondary_packet ?cl) ?p)) =
     Some ((new_connection (sample_key 1))
             \<lparr>secondary_list := [sample_packet [222, 173, 190, 239]], processing := True\<rparr>)"
    and 2: "need_compare_ev
      (colo_proxy_sock_receive 69632 (colo_proxy_enqueue_secondary_packet ?cl) ?p) = Some True"
    using sock_receive_dispatch [OF fdp rxp b(3) b(1) b(2), of ?cl "sample_key 1" "\<lambda>buf len x. x"]
    by (simp_all add: running_engine_simps flow_of_empty sample_packet_def new_connection_def)
  have 3: "colo_proxy_sock_receive 69632 (colo_proxy_enqueue_secondary_packet ?cl) ?s =
     (running_engine COLO_MODE_SECONDARY)
       \<lparr>allocs := [4], sock_rx := [], incoming_queue := [[222, 173, 190, 239]]\<rparr>"
    using sock_receive_dispatch [OF fds rxs b(3) b(1) b(2), of ?cl "sample_key 1"
        "colo_proxy_enqueue_secondary_packet ?cl"]
    by (simp add: running_engine_simps)
  have 4: "colo_proxy_sock_receive 69632
       (colo_proxy_enqueue_secondary_packet (\<lambda>buf :: byte list. None)) ?p =
     (running_engine COLO_MODE_PRIMARY)
       \<lparr>hashtable_max_size := 2, allocs := [4], sock_rx := []\<rparr>"
    using sock_receive_dispatch [OF fdp rxp b(3) b(1) b(2), of "\<lambda>buf :: byte list. None"
        "sample_key 1" "\<lambda>buf len x. x"]
    by (simp add: running_engine_simps)
  from 1 2 3 4 show ?thesis by simp
qed

text \<open>
  C9 as stated fails on a primary for an accepted frame that does not classify: the four
  payload bytes are read, and afterwards the registry is still empty (the payload is on no
  \<open>secondary_list\<close>) and the wake condition of the comparison task is not set.
\<close>

theorem sock_receive_unclassified_not_queued:
  "colo_conn_hash
     (colo_proxy_sock_receive 69632 (colo_proxy_enqueue_secondary_packet (\<lambda>buf. None))
        ((running_engine COLO_MODE_PRIMARY)
           \<lparr>hashtable_max_size := 2,
            sock_rx := [4, 0, 0, 0, 0, 0, 0, 0, 222, 173, 190, 239]\<rparr>)) = [] \<and>
   need_compare_ev
     (colo_proxy_sock_receive 69632 (colo_proxy_enqueue_secondary_packet (\<lambda>buf. None))
        ((running_engine COLO_MODE_PRIMARY)
           \<lparr>hashtable_max_size := 2,
            sock_rx := [4, 0, 0, 0, 0, 0, 0, 0, 222, 173, 190, 239]\<rparr>)) = Some False \<and>
   sock_rx
     (colo_proxy_sock_receive 69632 (colo_proxy_enqueue_secondary_packet (\<lambda>buf. None))
        ((running_engine COLO_MODE_PRIMARY)
           \<lparr>hashtable_max_size := 2,
            sock_rx := [4, 0, 0, 0, 0, 0, 0, 0, 222, 173, 190, 239]\<rparr>)) = []"
proof -
  let ?p = "(running_engine COLO_MODE_PRIMARY)
      \<lparr>hashtable_max_size := 2, sock_rx := [4, 0, 0, 0, 0, 0, 0, 0, 222, 173, 190, 239]\<rparr>"
  have rx: "sock_rx ?p = le_bytes sizeof_ssize_t (of_nat (length [222, 173, 190, 239 :: byte]))
      @ [222, 173, 190, 239] @ []"
    by (simp add: le_bytes_4)
  have fd: "0 \<le> sockfd ?p"
    by (simp add: running_engine_simps)
  have "colo_proxy_sock_receive 69632
       (colo_proxy_enqueue_secondary_packet (\<lambda>buf :: byte list. None)) ?p =
     (running_engine COLO_MODE_PRIMARY)
       \<lparr>hashtable_max_size := 2, allocs := [4], sock_rx := []\<rparr>"
    using sock_receive_accepts [OF fd rx, of 69632
        "colo_proxy_enqueue_secondary_packet (\<lambda>buf :: byte list. None)"]
    by (simp add: running_engine_simps colo_proxy_enqueue_secondary_packet_def)
  then show ?thesis
    by (simp add: running_engine_def engine_init_def)
qed

end
